theory Spec2Isabelle
  imports Complex_Main "HOL-Library.Word"
begin

section \<open>JavaScript values\<close>

text \<open>
  A JavaScript string is a sequence of UTF-16 code units. Literals of the source are
  ASCII and are written with \<open>lit\<close>.
\<close>

type_synonym jschar = "16 word"
type_synonym jsstring = "jschar list"

definition lit :: "string \<Rightarrow> jsstring" where
  "lit s = map (\<lambda>c. of_nat (of_char c)) s"

text \<open>
  Thrown values. Every value thrown on the paths modelled here is an \<open>Error\<close> object;
  the handlers read only its \<open>message\<close>. Messages produced by the engine itself
  (for a call of a non-function, a property read on \<open>null\<close>) are those of V8.
\<close>

datatype errkind = Error | TypeError | SyntaxError | URIError

datatype exn = Exn errkind jsstring

fun message :: "exn \<Rightarrow> jsstring" where
  "message (Exn k m) = m"

text \<open>
  Values obtained from \<open>JSON.parse\<close> (a response body), with \<open>undefined\<close> for the
  result of reading a missing property. Numbers are only ever tested for truthiness
  here; \<open>Num x\<close> stands for the double closest to \<open>x\<close>.
\<close>

datatype jsval =
    Undefined
  | Null
  | Bool bool
  | Num real
  | Str jsstring
  | Arr "jsval list"
  | Obj "(jsstring \<times> jsval) list"

fun truthy :: "jsval \<Rightarrow> bool" where
  "truthy Undefined = False"
| "truthy Null = False"
| "truthy (Bool b) = b"
| "truthy (Num x) = (x \<noteq> 0)"
| "truthy (Str s) = (s \<noteq> [])"
| "truthy (Arr xs) = True"
| "truthy (Obj kvs) = True"

text \<open>\<open>JSON.parse\<close> keeps the last of several members with the same name.\<close>

fun own_property :: "(jsstring \<times> jsval) list \<Rightarrow> jsstring \<Rightarrow> jsval" where
  "own_property kvs k = (case map_of (rev kvs) k of None \<Rightarrow> Undefined | Some v \<Rightarrow> v)"

text \<open>
  \<open>v.k\<close> for \<open>v\<close> neither \<open>null\<close> nor \<open>undefined\<close>, and for the names read by
  the source (\<open>html\<close>, \<open>text\<close>, \<open>candidates\<close>, \<open>content\<close>, \<open>parts\<close>), none of which
  is defined by a prototype: only an object can have such a property.
\<close>

fun property :: "jsval \<Rightarrow> jsstring \<Rightarrow> jsval" where
  "property (Obj kvs) k = own_property kvs k"
| "property v k = Undefined"

text \<open>\<open>v.k\<close>: reading a property of \<open>null\<close> or \<open>undefined\<close> throws.\<close>

fun get_property :: "jsval \<Rightarrow> string \<Rightarrow> exn + jsval" where
  "get_property Undefined k =
     Inl (Exn TypeError (lit ''Cannot read properties of undefined (reading '' @ lit [CHR 0x27] @ lit k @ lit [CHR 0x27] @ lit '')''))"
| "get_property Null k =
     Inl (Exn TypeError (lit ''Cannot read properties of null (reading '' @ lit [CHR 0x27] @ lit k @ lit [CHR 0x27] @ lit '')''))"
| "get_property v k = Inr (property v (lit k))"

text \<open>\<open>v?.k\<close>\<close>

fun opt_property :: "jsval \<Rightarrow> string \<Rightarrow> jsval" where
  "opt_property Undefined k = Undefined"
| "opt_property Null k = Undefined"
| "opt_property v k = property v (lit k)"

text \<open>
  \<open>v?.[0]\<close>: the first element of an array, the first code unit of a string, the
  member named \<open>0\<close> of an object.
\<close>

fun opt_index0 :: "jsval \<Rightarrow> jsval" where
  "opt_index0 (Arr xs) = (case xs of [] \<Rightarrow> Undefined | x # _ \<Rightarrow> x)"
| "opt_index0 (Str s) = (case s of [] \<Rightarrow> Undefined | c # _ \<Rightarrow> Str [c])"
| "opt_index0 (Obj kvs) = own_property kvs (lit ''0'')"
| "opt_index0 v = Undefined"

text \<open>\<open>x || y\<close> on values.\<close>

definition or_else :: "jsval \<Rightarrow> jsval \<Rightarrow> jsval" where
  "or_else x y = (if truthy x then x else y)"

text \<open>
  An optional string (a header, an environment variable, a field of the request) is
  falsy when it is missing or empty.
\<close>

definition falsy :: "jsstring option \<Rightarrow> bool" where
  "falsy x = (x = None \<or> x = Some [])"

text \<open>\<open>x || d\<close> and \<open>x || ''\<close> on an optional string.\<close>

definition or_default :: "jsstring option \<Rightarrow> jsstring \<Rightarrow> jsstring" where
  "or_default x d = (case x of None \<Rightarrow> d | Some s \<Rightarrow> if s = [] then d else s)"

definition or_empty :: "jsstring option \<Rightarrow> jsstring" where
  "or_empty x = or_default x []"

subsection \<open>String operations\<close>

text \<open>
  \<open>String.prototype.trim\<close> removes white space and line terminators from both ends:
  TAB, LF, VT, FF, CR, SP, NBSP, U+1680, U+2000 to U+200A, U+2028, U+2029, U+202F,
  U+205F, U+3000 and U+FEFF.
\<close>

definition is_white_space :: "jschar \<Rightarrow> bool" where
  "is_white_space c =
     (c \<in> {0x9, 0xA, 0xB, 0xC, 0xD, 0x20, 0xA0, 0x1680, 0x2028, 0x2029, 0x202F, 0x205F, 0x3000, 0xFEFF}
      \<or> (0x2000 \<le> c \<and> c \<le> 0x200A))"

definition trim :: "jsstring \<Rightarrow> jsstring" where
  "trim s = rev (dropWhile is_white_space (rev (dropWhile is_white_space s)))"

text \<open>The line terminators, which \<open>.\<close> in a regular expression does not match.\<close>

definition is_line_terminator :: "jschar \<Rightarrow> bool" where
  "is_line_terminator c = (c \<in> {0xA, 0xD, 0x2028, 0x2029})"

text \<open>
  \<open>encodeURIComponent\<close> throws a \<open>URIError\<close> on a string with a lone surrogate. Its
  result only names the resource that is fetched, so the model keeps the check and
  leaves the escaping out.
\<close>

definition is_high_surrogate :: "jschar \<Rightarrow> bool" where
  "is_high_surrogate c = (0xD800 \<le> c \<and> c \<le> 0xDBFF)"

definition is_low_surrogate :: "jschar \<Rightarrow> bool" where
  "is_low_surrogate c = (0xDC00 \<le> c \<and> c \<le> 0xDFFF)"

fun well_formed :: "jsstring \<Rightarrow> bool" where
  "well_formed [] = True"
| "well_formed [c] = (\<not> is_high_surrogate c \<and> \<not> is_low_surrogate c)"
| "well_formed (c # d # cs) =
     (if is_high_surrogate c then is_low_surrogate d \<and> well_formed cs
      else \<not> is_low_surrogate c \<and> well_formed (d # cs))"

definition encodeURIComponent :: "jsstring \<Rightarrow> exn + unit" where
  "encodeURIComponent s = (if well_formed s then Inr () else Inl (Exn URIError (lit ''URI malformed'')))"

text \<open>
  The string conversion that a template literal applies to a value. It throws a
  \<open>TypeError\<close> for an object with a member named \<open>toString\<close>: the member hides
  \<open>Object.prototype.toString\<close> and is not callable, and \<open>valueOf\<close> (the object's own
  member or the inherited method) gives no primitive. An array is converted by joining
  the conversions of its elements, \<open>null\<close> and \<open>undefined\<close> counting as empty, so it
  throws when the conversion of an element does. Every other value has a string. The
  string itself only goes into the prompt, so the model keeps the check and leaves the
  text out.
\<close>

fun string_convertible :: "jsval \<Rightarrow> bool" where
  "string_convertible (Arr xs) = list_all string_convertible xs"
| "string_convertible (Obj kvs) = (map_of kvs (lit ''toString'') = None)"
| "string_convertible v = True"

definition to_string :: "jsval \<Rightarrow> exn + unit" where
  "to_string v =
     (if string_convertible v then Inr ()
      else Inl (Exn TypeError (lit ''Cannot convert object to primitive value'')))"

text \<open>Decimal digits of a number, for template strings.\<close>

fun digits :: "nat \<Rightarrow> string" where
  "digits n =
     (if n < 10 then [''0123456789'' ! n] else digits (n div 10) @ [''0123456789'' ! (n mod 10)])"

declare digits.simps [simp del]

section \<open>The environment and the outside world\<close>

text \<open>
  \<open>process.env\<close>: each variable is a string or is not set. The first variant reads
  \<open>INGEST_SECRET\<close> as \<open>process.env.INGEST_SECRET || ''\<close>, the second as it is.
\<close>

record environment =
  GEMINI_API_KEY :: "jsstring option"
  INGEST_SECRET :: "jsstring option"
  DATABASE_URL :: "jsstring option"
  FCM_SERVICE_ACCOUNT_B64 :: "jsstring option"
  FIREBASE_SERVICE_ACCOUNT :: "jsstring option"

text \<open>
  The table \<open>summaries\<close>, rows in insertion order. \<open>row_id\<close> is the column \<open>id\<close>
  and \<open>created_at\<close> a time in milliseconds. \<open>next_id\<close> is the sequence behind the
  \<open>SERIAL\<close> column. Each variant runs against the table its own
  \<open>CREATE TABLE IF NOT EXISTS\<close> declares: \<open>tweet_url\<close> is \<open>UNIQUE\<close> in the
  first variant and is not in the second.
\<close>

record summary_row =
  row_id :: nat
  created_at :: int
  summary_text :: jsstring
  tweet_author :: "jsstring option"
  tweet_url :: "jsstring option"

record database =
  summaries :: "summary_row list"
  next_id :: nat

text \<open>A response to \<open>fetch\<close>: its status and what \<open>res.text()\<close> and \<open>res.json()\<close> give.\<close>

record fetch_response =
  status :: nat
  text_body :: "exn + jsstring"
  json_body :: "exn + jsval"

definition ok :: "fetch_response \<Rightarrow> bool" where
  "ok r = (200 \<le> status r \<and> status r \<le> 299)"

text \<open>
  What the outside world does during one request: the outcome of the \<open>k\<close>-th call of
  \<open>fetch\<close> (rejected, or a response), whether the database rejects the query, the
  time it stamps on a new row, whether the Firebase SDK could be initialised at start-up,
  and the outcome of \<open>admin.messaging().send\<close>. Every run of a handler in which each
  of these calls settles is the run of the model in some such world; a call that never
  settles (the source sets no timeout) is not modelled.
\<close>

record world =
  net :: "nat \<Rightarrow> exn + fetch_response"
  pg_error :: "exn option"
  clock :: int
  firebase_init_ok :: bool
  fcm_send :: "exn + jsstring"

text \<open>
  What a handler does to the world, in order: a call of \<open>fetch\<close> (on the
  summarization endpoint, built from the API key and from the text, author and URL of the
  prompt, or on one of the two lookup endpoints, built from the URL), a timer of so many
  milliseconds, a call of \<open>pool.query\<close>, a call of \<open>admin.messaging().send\<close> with
  the title, body and URL of a message to the topic \<open>hillpulse_updates\<close>, and a line
  written to the console.
\<close>

datatype resource =
    Gemini jsstring jsval "jsstring option" jsstring
  | OEmbed jsstring
  | Syndication jsstring

datatype sql =
    Insert_on_conflict_do_nothing jsstring "jsstring option" "jsstring option"
  | Insert_plain jsstring jsstring jsstring
  | Select_feed

datatype level = Log | Warn | Err

datatype event =
    Fetch resource
  | Sleep nat
  | Query sql
  | Send jsstring jsstring jsstring
  | Console level jsstring

record state =
  db :: database
  fetched :: nat
  trace :: "event list"

definition emit :: "event \<Rightarrow> state \<Rightarrow> state" where
  "emit e s = s\<lparr>trace := trace s @ [e]\<rparr>"

definition fetch :: "world \<Rightarrow> state \<Rightarrow> resource \<Rightarrow> (exn + fetch_response) \<times> state" where
  "fetch w s r = (net w (fetched s), (emit (Fetch r) s)\<lparr>fetched := Suc (fetched s)\<rparr>)"

section \<open>The database\<close>

record query_result =
  rowCount :: nat
  rows :: "summary_row list"

definition new_row :: "world \<Rightarrow> database \<Rightarrow> jsstring \<Rightarrow> jsstring option \<Rightarrow> jsstring option \<Rightarrow> summary_row" where
  "new_row w d summary author url =
     \<lparr>row_id = next_id d, created_at = clock w, summary_text = summary,
      tweet_author = author, tweet_url = url\<rparr>"

text \<open>
  \<open>ORDER BY created_at DESC LIMIT 50\<close>. The order of rows with equal \<open>created_at\<close>
  is not fixed by SQL; the model takes one such order.
\<close>

definition order_by_created_at_desc :: "summary_row list \<Rightarrow> summary_row list" where
  "order_by_created_at_desc rs = rev (sort_key created_at rs)"

text \<open>
  \<open>pool.query\<close> on the three statements of the source. A rejected query leaves the
  table as it was. With \<open>ON CONFLICT (tweet_url) DO NOTHING\<close> a row whose
  \<open>tweet_url\<close> is not null and already stored is skipped (\<open>rowCount\<close> 0); nulls never
  conflict. The sequence advances also when the row is skipped.
\<close>

definition pool_query :: "world \<Rightarrow> state \<Rightarrow> sql \<Rightarrow> (exn + query_result) \<times> state" where
  "pool_query w s q =
     (let s1 = emit (Query q) s; d = db s1 in
      case pg_error w of
        Some e \<Rightarrow> (Inl e, s1)
      | None \<Rightarrow>
         (case q of
            Insert_on_conflict_do_nothing summary author url \<Rightarrow>
              if url \<noteq> None \<and> url \<in> tweet_url ` set (summaries d)
              then (Inr \<lparr>rowCount = 0, rows = []\<rparr>, s1\<lparr>db := d\<lparr>next_id := Suc (next_id d)\<rparr>\<rparr>)
              else (let r = new_row w d summary author url in
                    (Inr \<lparr>rowCount = 1, rows = [r]\<rparr>,
                     s1\<lparr>db := d\<lparr>summaries := summaries d @ [r], next_id := Suc (next_id d)\<rparr>\<rparr>))
          | Insert_plain summary author url \<Rightarrow>
              (let r = new_row w d summary (Some author) (Some url) in
               (Inr \<lparr>rowCount = 1, rows = [r]\<rparr>,
                s1\<lparr>db := d\<lparr>summaries := summaries d @ [r], next_id := Suc (next_id d)\<rparr>\<rparr>))
          | Select_feed \<Rightarrow>
              (let rs = take 50 (order_by_created_at_desc (summaries d)) in
               (Inr \<lparr>rowCount = length rs, rows = rs\<rparr>, s1))))"

subsection \<open>First variant: \<open>query\<close> and \<open>saveSummaryToDB\<close>\<close>

definition query :: "environment \<Rightarrow> world \<Rightarrow> state \<Rightarrow> sql \<Rightarrow> (exn + query_result) \<times> state" where
  "query env w s q =
     (if falsy (DATABASE_URL env)
      then (Inl (Exn Error (lit ''Missing DATABASE_URL environment variable.'')), s)
      else pool_query w s q)"

definition saveSummaryToDB ::
  "environment \<Rightarrow> world \<Rightarrow> state \<Rightarrow> jsstring \<Rightarrow> jsstring option \<Rightarrow> jsstring option \<Rightarrow> (exn + bool) \<times> state" where
  "saveSummaryToDB env w s summary author url =
     (if falsy (DATABASE_URL env)
      then (Inr False, emit (Console Warn (lit ''Skipping DB save: DATABASE_URL is not set.'')) s)
      else
        (case query env w s (Insert_on_conflict_do_nothing summary author url) of
           (Inr res, s1) \<Rightarrow> (Inr (rowCount res > 0), s1)
         | (Inl e, s1) \<Rightarrow> (Inr False, emit (Console Err (lit ''DB Insert Failed: '' @ message e)) s1)))"

text \<open>The number of rows stored for a URL, and the invariant of the first variant's table.\<close>

definition url_count :: "database \<Rightarrow> jsstring \<Rightarrow> nat" where
  "url_count d u = length (filter (\<lambda>r. tweet_url r = Some u) (summaries d))"

definition unique_urls :: "database \<Rightarrow> bool" where
  "unique_urls d = distinct (List.map_filter tweet_url (summaries d))"

section \<open>Summarization client\<close>

definition MAX_RETRIES :: nat where
  "MAX_RETRIES = 5"

text \<open>\<open>data?.candidates?.[0]?.content?.parts?.[0]?.text\<close>\<close>

definition first_text_fragment :: "jsval \<Rightarrow> jsval" where
  "first_text_fragment data =
     opt_property (opt_index0 (opt_property (opt_property (opt_index0 (opt_property data ''candidates'')) ''content'') ''parts'')) ''text''"

text \<open>
  What the \<open>try\<close> block of the loop does with the outcome of \<open>fetch\<close>: \<open>Inl\<close>
  is what the \<open>catch\<close> receives. A truthy fragment that is not a string has no
  \<open>trim\<close>.
\<close>

definition attempt_result :: "exn + fetch_response \<Rightarrow> exn + jsstring" where
  "attempt_result r =
     (case r of
        Inl e \<Rightarrow> Inl e
      | Inr res \<Rightarrow>
          if status res = 503 then Inl (Exn Error (lit ''Gemini overload 503''))
          else if \<not> ok res then
            (let t = (case text_body res of Inl _ \<Rightarrow> [] | Inr t \<Rightarrow> t) in
             Inl (Exn Error (lit ''Gemini error '' @ lit (digits (status res)) @ lit '': '' @ t)))
          else
            (case json_body res of
               Inl e \<Rightarrow> Inl e
             | Inr data \<Rightarrow>
                 (case or_else (first_text_fragment data) (Str []) of
                    Str out \<Rightarrow> Inr (trim out)
                  | _ \<Rightarrow> Inl (Exn TypeError (lit ''out.trim is not a function'')))))"

definition gemini_attempt :: "world \<Rightarrow> state \<Rightarrow> resource \<Rightarrow> (exn + jsstring) \<times> state" where
  "gemini_attempt w s endpoint = (case fetch w s endpoint of (r, s1) \<Rightarrow> (attempt_result r, s1))"

text \<open>The \<open>while\<close> loop, from the values of \<open>attempt\<close> and \<open>lastErr\<close>.\<close>

function retry_loop :: "world \<Rightarrow> resource \<Rightarrow> nat \<Rightarrow> exn option \<Rightarrow> state \<Rightarrow> (exn + jsstring) \<times> state" where
  "retry_loop w endpoint attempt lastErr s =
     (if attempt \<le> MAX_RETRIES then
        (case gemini_attempt w s endpoint of
           (Inr out, s1) \<Rightarrow> (Inr out, s1)
         | (Inl err, s1) \<Rightarrow>
             retry_loop w endpoint (attempt + 1) (Some err)
               (if attempt + 1 \<le> MAX_RETRIES
                then emit (Sleep 8000)
                       (emit (Console Warn (lit ''Gemini attempt '' @ lit (digits (attempt + 1)) @ lit '' failed (''
                                @ message err @ lit ''). Retrying in 8s...'')) s1)
                else s1))
      else
        (Inl (Exn Error (lit ''Gemini failed after '' @ lit (digits (MAX_RETRIES + 1)) @ lit '' attempts: ''
                @ (case lastErr of None \<Rightarrow> lit ''undefined'' | Some e \<Rightarrow> message e))), s))"
  by pat_completeness auto
termination
  by (relation "measure (\<lambda>(w, endpoint, attempt, lastErr, s). Suc MAX_RETRIES - attempt)") auto

declare retry_loop.simps [simp del]

text \<open>
  Before the loop, outside any \<open>try\<close>: the guard on the key (line 131), the encoding
  of the key into the endpoint (line 132), and the template literal of the request body
  (line 136), which converts \<open>text\<close>, \<open>author\<close> and \<open>url\<close> to strings. The author is
  a string or \<open>undefined\<close> and the URL a string, so only the conversion of the text
  can throw.
\<close>

definition callGeminiSummary ::
  "environment \<Rightarrow> world \<Rightarrow> state \<Rightarrow> jsval \<Rightarrow> jsstring option \<Rightarrow> jsstring \<Rightarrow> (exn + jsstring) \<times> state" where
  "callGeminiSummary env w s text author url =
     (if falsy (GEMINI_API_KEY env) then (Inl (Exn Error (lit ''Missing GEMINI_API_KEY'')), s)
      else
        (let key = or_empty (GEMINI_API_KEY env) in
         case encodeURIComponent key of
           Inl e \<Rightarrow> (Inl e, s)
         | Inr _ \<Rightarrow>
             (case to_string text of
                Inl e \<Rightarrow> (Inl e, s)
              | Inr _ \<Rightarrow> retry_loop w (Gemini key text author url) 0 None s)))"

section \<open>Content fetcher\<close>

definition starts_with :: "jsstring \<Rightarrow> jsstring \<Rightarrow> bool" where
  "starts_with p s = (take (length p) s = p)"

text \<open>
  \<open>html.match(/<p[^>]*>(.*?)<\/p>/)\<close>, giving \<open>match[1]\<close>. At one start position
  the expression can match in one way only: \<open>[^>]*\<close> must stop at the first \<open>>\<close>
  after \<open><p\<close>, and the lazy group ends at the first \<open></p>\<close> after it, with no line
  terminator in between. \<open>match\<close> takes the leftmost start position that matches.
\<close>

definition open_tag :: "jsstring \<Rightarrow> jsstring option" where
  "open_tag s =
     (if starts_with (lit ''<p'') s
      then (case dropWhile (\<lambda>c. c \<noteq> 0x3E) (drop 2 s) of [] \<Rightarrow> None | _ # r \<Rightarrow> Some r)
      else None)"

fun lazy_group :: "jsstring \<Rightarrow> jsstring option" where
  "lazy_group [] = None"
| "lazy_group (c # cs) =
     (if starts_with (lit ''</p>'') (c # cs) then Some []
      else if is_line_terminator c then None
      else map_option ((#) c) (lazy_group cs))"

definition paragraph_at :: "jsstring \<Rightarrow> jsstring option" where
  "paragraph_at s = (case open_tag s of None \<Rightarrow> None | Some r \<Rightarrow> lazy_group r)"

fun match_paragraph :: "jsstring \<Rightarrow> jsstring option" where
  "match_paragraph [] = None"
| "match_paragraph (c # cs) =
     (case paragraph_at (c # cs) of Some g \<Rightarrow> Some g | None \<Rightarrow> match_paragraph cs)"

text \<open>
  \<open>/<[^>]+>/\<close> at the start of a string: \<open><\<close>, one or more code units other than
  \<open>>\<close>, then \<open>>\<close>. The result is what follows the match.
\<close>

definition tag_at :: "jsstring \<Rightarrow> jsstring option" where
  "tag_at s =
     (case s of
        [] \<Rightarrow> None
      | c # cs \<Rightarrow>
          if c = 0x3C \<and> takeWhile (\<lambda>c. c \<noteq> 0x3E) cs \<noteq> [] \<and> dropWhile (\<lambda>c. c \<noteq> 0x3E) cs \<noteq> []
          then Some (tl (dropWhile (\<lambda>c. c \<noteq> 0x3E) cs))
          else None)"

text \<open>\<open>.replace(/<[^>]+>/g, '')\<close>\<close>

function strip_tags :: "jsstring \<Rightarrow> jsstring" where
  "strip_tags [] = []"
| "strip_tags (c # cs) =
     (case tag_at (c # cs) of Some r \<Rightarrow> strip_tags r | None \<Rightarrow> c # strip_tags cs)"
  by pat_completeness auto
termination
proof (relation "measure length")
  show "wf (measure length)" by simp
next
  fix c :: jschar and cs r :: jsstring
  assume "tag_at (c # cs) = Some r"
  then have "r = tl (dropWhile (\<lambda>c. c \<noteq> 0x3E) cs)"
    by (simp add: tag_at_def split: if_splits)
  moreover have "length (dropWhile (\<lambda>c. c \<noteq> 0x3E) cs) \<le> length cs"
    by (rule length_dropWhile_le)
  ultimately show "(r, c # cs) \<in> measure length" by simp
next
  fix c :: jschar and cs :: jsstring
  show "(cs, c # cs) \<in> measure length" by simp
qed

text \<open>\<open>.replace(/p/g, r)\<close> for a literal, non-empty \<open>p\<close>.\<close>

function replace_all :: "jsstring \<Rightarrow> jsstring \<Rightarrow> jsstring \<Rightarrow> jsstring" where
  "replace_all p r [] = []"
| "replace_all p r (c # cs) =
     (if p \<noteq> [] \<and> starts_with p (c # cs)
      then r @ replace_all p r (drop (length p) (c # cs))
      else c # replace_all p r cs)"
  by pat_completeness auto
termination
  by (relation "measure (\<lambda>(p, r, s). length s)") auto

definition decode_entities :: "jsstring \<Rightarrow> jsstring" where
  "decode_entities s =
     replace_all (lit ''&#39;'') (lit [CHR 0x27])
       (replace_all (lit ''&quot;'') (lit [CHR 0x22])
         (replace_all (lit ''&gt;'') (lit ''>'')
           (replace_all (lit ''&lt;'') (lit ''<'')
             (replace_all (lit ''&amp;'') (lit ''&'') s))))"

definition snippet :: "jsstring \<Rightarrow> jsstring" where
  "snippet g = decode_entities (strip_tags g)"

text \<open>
  The primary lookup, after \<open>fetch\<close>: \<open>Inr (Some v)\<close> when the function returns
  \<open>v\<close>, \<open>Inr None\<close> when it goes on to the secondary lookup. A truthy \<open>html\<close>
  that is not a string has no \<open>match\<close>.
\<close>

definition primary :: "fetch_response \<Rightarrow> exn + jsval option" where
  "primary r1 =
     (if ok r1 then
        (case json_body r1 of
           Inl e \<Rightarrow> Inl e
         | Inr data \<Rightarrow>
             (case get_property data ''html'' of
                Inl e \<Rightarrow> Inl e
              | Inr h \<Rightarrow>
                  (case or_else h (Str []) of
                     Str html \<Rightarrow>
                       (case match_paragraph html of
                          Some g \<Rightarrow> Inr (Some (Str (snippet g)))
                        | None \<Rightarrow> Inr None)
                   | _ \<Rightarrow> Inl (Exn TypeError (lit ''html.match is not a function'')))))
      else Inr None)"

definition secondary :: "fetch_response \<Rightarrow> exn + jsval option" where
  "secondary r2 =
     (if ok r2 then
        (case json_body r2 of
           Inl e \<Rightarrow> Inl e
         | Inr data2 \<Rightarrow>
             (case get_property data2 ''text'' of
                Inl e \<Rightarrow> Inl e
              | Inr t \<Rightarrow> if truthy t then Inr (Some t) else Inr None))
      else Inr None)"

text \<open>
  The \<open>try\<close> block of \<open>fetchTweetText\<close>; \<open>Inl\<close> is what its \<open>catch\<close> receives.
  The URL is encoded a second time for the secondary lookup, which cannot throw when the
  first encoding did not.
\<close>

definition fetchTweetText_try :: "world \<Rightarrow> state \<Rightarrow> jsstring \<Rightarrow> (exn + jsval option) \<times> state" where
  "fetchTweetText_try w s url =
     (case encodeURIComponent url of
        Inl e \<Rightarrow> (Inl e, s)
      | Inr _ \<Rightarrow>
          (case fetch w s (OEmbed url) of
             (Inl e, s1) \<Rightarrow> (Inl e, s1)
           | (Inr r1, s1) \<Rightarrow>
               (case primary r1 of
                  Inl e \<Rightarrow> (Inl e, s1)
                | Inr (Some v) \<Rightarrow> (Inr (Some v), s1)
                | Inr None \<Rightarrow>
                    (case fetch w s1 (Syndication url) of
                       (Inl e, s2) \<Rightarrow> (Inl e, s2)
                     | (Inr r2, s2) \<Rightarrow> (secondary r2, s2)))))"

definition fetchTweetText :: "world \<Rightarrow> state \<Rightarrow> jsstring \<Rightarrow> (exn + jsval) \<times> state" where
  "fetchTweetText w s url =
     (if url = [] then (Inr (Str []), s)
      else
        (case fetchTweetText_try w s url of
           (Inr (Some v), s1) \<Rightarrow> (Inr v, s1)
         | (Inr None, s1) \<Rightarrow> (Inr (Str []), s1)
         | (Inl err, s1) \<Rightarrow>
             (Inr (Str []), emit (Console Err (lit ''Tweet fetch failed: '' @ message err)) s1)))"

section \<open>Notification dispatcher\<close>

text \<open>
  \<open>fcmInitialized\<close> after the module has loaded: set only when the credential is
  present and decoding, parsing and \<open>initializeApp\<close> all went through.
\<close>

definition fcmInitialized :: "environment \<Rightarrow> world \<Rightarrow> bool" where
  "fcmInitialized env w = (\<not> falsy (FCM_SERVICE_ACCOUNT_B64 env) \<and> firebase_init_ok w)"

definition sendFCMNotification ::
  "environment \<Rightarrow> world \<Rightarrow> state \<Rightarrow> jsstring option \<Rightarrow> jsstring \<Rightarrow> jsstring option \<Rightarrow> (exn + bool) \<times> state" where
  "sendFCMNotification env w s title msg url =
     (if \<not> fcmInitialized env w
      then (Inr False, emit (Console Warn (lit ''Skipping FCM: Firebase Admin SDK not initialized.'')) s)
      else
        (let s1 = emit (Send (or_default title (lit ''The Capitol Wire'')) msg (or_empty url)) s in
         case fcm_send w of
           Inr response \<Rightarrow> (Inr True, emit (Console Log (lit ''Successfully sent FCM message: '' @ response)) s1)
         | Inl e \<Rightarrow> (Inr False, emit (Console Err (lit ''FCM Send Failed: '' @ message e)) s1)))"

section \<open>HTTP handlers\<close>

text \<open>
  The body of a response is one of the objects the handlers build. \<open>Failure e\<close> is
  \<open>{ ok: false, error: e }\<close>, \<open>Error_only e\<close> is \<open>{ error: e }\<close>,
  \<open>Summarised summary saved pushed\<close> is \<open>{ ok: true, summary, saved, pushed }\<close>,
  \<open>Feed items\<close> is \<open>{ ok: true, feed: items }\<close> and \<open>Item r\<close> is
  \<open>{ ok: true, item: r }\<close>.
\<close>

record feed_item =
  item_summary_text :: jsstring
  item_tweet_author :: "jsstring option"
  item_tweet_url :: "jsstring option"
  item_created_at :: int

datatype body =
    Failure jsstring
  | Error_only jsstring
  | Summarised jsstring bool bool
  | Feed "feed_item list"
  | Item "summary_row option"

record response =
  http_status :: nat
  json :: body

fun ok_flag :: "body \<Rightarrow> bool option" where
  "ok_flag (Failure e) = Some False"
| "ok_flag (Error_only e) = None"
| "ok_flag (Summarised summary saved pushed) = Some True"
| "ok_flag (Feed items) = Some True"
| "ok_flag (Item r) = Some True"

definition select_columns :: "summary_row \<Rightarrow> feed_item" where
  "select_columns r =
     \<lparr>item_summary_text = summary_text r, item_tweet_author = tweet_author r,
      item_tweet_url = tweet_url r, item_created_at = created_at r\<rparr>"

subsection \<open>First variant\<close>

text \<open>
  A request to the first variant as the handler receives it, after \<open>express.json\<close> has
  parsed the body: the two headers read by \<open>assertAuthorized\<close> and the members
  \<open>text\<close>, \<open>author\<close> and \<open>url\<close> of \<open>req.body.data\<close>, each a string or missing.
  Members of another JSON type are not modelled.
\<close>

record request_A =
  x_hillpulse_key :: "jsstring option"
  authorization :: "jsstring option"
  data_text :: "jsstring option"
  data_author :: "jsstring option"
  data_url :: "jsstring option"

definition assertAuthorized :: "environment \<Rightarrow> request_A \<Rightarrow> bool" where
  "assertAuthorized env req =
     (let secret = or_empty (INGEST_SECRET env) in
      if secret = [] then True
      else
        (let h = or_default (x_hillpulse_key req) (or_default (authorization req) []) in
         h = secret \<or> h = lit ''Bearer '' @ secret))"

text \<open>
  \<open>url.match(/x\.com\/([^\/]+)\//)\<close>, giving \<open>match[1]\<close>: the leftmost \<open>x.com/\<close>
  that is followed by one or more code units other than \<open>/\<close> and then a \<open>/\<close>.
\<close>

definition handle_at :: "jsstring \<Rightarrow> jsstring option" where
  "handle_at s =
     (if starts_with (lit ''x.com/'') s
         \<and> takeWhile (\<lambda>c. c \<noteq> 0x2F) (drop 6 s) \<noteq> [] \<and> dropWhile (\<lambda>c. c \<noteq> 0x2F) (drop 6 s) \<noteq> []
      then Some (takeWhile (\<lambda>c. c \<noteq> 0x2F) (drop 6 s))
      else None)"

fun match_handle :: "jsstring \<Rightarrow> jsstring option" where
  "match_handle [] = None"
| "match_handle (c # cs) =
     (case handle_at (c # cs) of Some a \<Rightarrow> Some a | None \<Rightarrow> match_handle cs)"

text \<open>The \<open>catch\<close> of the handler.\<close>

definition internal_error :: "exn \<Rightarrow> state \<Rightarrow> response \<times> state" where
  "internal_error e s =
     (\<lparr>http_status = 500, json = Failure (message e)\<rparr>, emit (Console Err (message e)) s)"

text \<open>
  The handler's \<open>url\<close>, \<open>author\<close> and \<open>text\<close> (lines 207 to 216): the author is
  taken from the URL when the request has none, the text is fetched when the request has
  none and has a URL.
\<close>

definition request_url :: "request_A \<Rightarrow> jsstring" where
  "request_url req = or_empty (data_url req)"

definition request_author :: "request_A \<Rightarrow> jsstring option" where
  "request_author req =
     (if falsy (data_author req) \<and> request_url req \<noteq> []
      then (case match_handle (request_url req) of Some a \<Rightarrow> Some a | None \<Rightarrow> data_author req)
      else data_author req)"

definition request_text :: "world \<Rightarrow> state \<Rightarrow> request_A \<Rightarrow> (exn + jsval) \<times> state" where
  "request_text w s req =
     (if or_empty (data_text req) = [] \<and> request_url req \<noteq> []
      then fetchTweetText w s (request_url req)
      else (Inr (Str (or_empty (data_text req))), s))"

definition ingest_A :: "environment \<Rightarrow> world \<Rightarrow> state \<Rightarrow> request_A \<Rightarrow> response \<times> state" where
  "ingest_A env w s req =
     (if \<not> assertAuthorized env req
      then (\<lparr>http_status = 401, json = Failure (lit ''Unauthorized'')\<rparr>, s)
      else
        (let url = request_url req; author = request_author req in
         case request_text w s req of
           (Inl e, s1) \<Rightarrow> internal_error e s1
         | (Inr text, s1) \<Rightarrow>
             if \<not> truthy text
             then (\<lparr>http_status = 400, json = Failure (lit ''Missing tweet text'')\<rparr>, s1)
             else
               (case callGeminiSummary env w s1 text author url of
                  (Inl e, s2) \<Rightarrow> internal_error e s2
                | (Inr summary, s2) \<Rightarrow>
                    (case saveSummaryToDB env w s2 summary author (Some url) of
                       (Inl e, s3) \<Rightarrow> internal_error e s3
                     | (Inr saved, s3) \<Rightarrow>
                         (case sendFCMNotification env w s3 (Some (lit ''The Capitol Wire'')) summary (Some url) of
                            (Inl e, s4) \<Rightarrow> internal_error e s4
                          | (Inr pushed, s4) \<Rightarrow>
                              (\<lparr>http_status = 200, json = Summarised summary saved pushed\<rparr>, s4))))))"

definition feed_A :: "environment \<Rightarrow> world \<Rightarrow> state \<Rightarrow> response \<times> state" where
  "feed_A env w s =
     (case query env w s Select_feed of
        (Inr result, s1) \<Rightarrow> (\<lparr>http_status = 200, json = Feed (map select_columns (rows result))\<rparr>, s1)
      | (Inl e, s1) \<Rightarrow>
          (\<lparr>http_status = 500, json = Failure (message e)\<rparr>,
           emit (Console Err (lit ''Feed Retrieval Failed: '' @ message e)) s1))"

subsection \<open>Second variant\<close>

text \<open>
  A request to the second variant as the handler receives it:
  \<open>req.headers.authorization\<close> and the members \<open>summary_text\<close>, \<open>tweet_author\<close>
  and \<open>tweet_url\<close> of \<open>req.body\<close>, each a string or missing.
\<close>

record request_B =
  headers_authorization :: "jsstring option"
  body_summary_text :: "jsstring option"
  body_tweet_author :: "jsstring option"
  body_tweet_url :: "jsstring option"

text \<open>\<open>s.split(' ')\<close> and \<open>xs[n]\<close>, which is \<open>undefined\<close> out of range.\<close>

fun split :: "jschar \<Rightarrow> jsstring \<Rightarrow> jsstring list" where
  "split sep [] = [[]]"
| "split sep (c # cs) =
     (if c = sep then [] # split sep cs
      else (case split sep cs of [] \<Rightarrow> [[c]] | x # xs \<Rightarrow> (c # x) # xs))"

definition element :: "'a list \<Rightarrow> nat \<Rightarrow> 'a option" where
  "element xs n = (if n < length xs then Some (xs ! n) else None)"

definition unauthorized_B :: "environment \<Rightarrow> request_B \<Rightarrow> bool" where
  "unauthorized_B env req =
     (case headers_authorization req of
        None \<Rightarrow> True
      | Some authHeader \<Rightarrow>
          authHeader = [] \<or> \<not> starts_with (lit ''Bearer '') authHeader
          \<or> element (split 0x20 authHeader) 1 \<noteq> INGEST_SECRET env)"

text \<open>
  \<open>admin.apps.length\<close> after the module has loaded: an app exists only when the
  credential is present and parsing it and \<open>initializeApp\<close> went through.
\<close>

definition admin_apps_length :: "environment \<Rightarrow> world \<Rightarrow> nat" where
  "admin_apps_length env w = (if \<not> falsy (FIREBASE_SERVICE_ACCOUNT env) \<and> firebase_init_ok w then 1 else 0)"

definition ingest_B :: "environment \<Rightarrow> world \<Rightarrow> state \<Rightarrow> request_B \<Rightarrow> response \<times> state" where
  "ingest_B env w s req =
     (if unauthorized_B env req
      then (\<lparr>http_status = 401, json = Error_only (lit ''Unauthorized'')\<rparr>, s)
      else if falsy (body_summary_text req) \<or> falsy (body_tweet_author req) \<or> falsy (body_tweet_url req)
      then (\<lparr>http_status = 400,
             json = Error_only (lit ''Missing required fields: summary_text, tweet_author, tweet_url'')\<rparr>, s)
      else
        (let summary_text = or_empty (body_summary_text req);
             tweet_author = or_empty (body_tweet_author req);
             tweet_url = or_empty (body_tweet_url req)
         in
         case pool_query w s (Insert_plain summary_text tweet_author tweet_url) of
           (Inl error, s1) \<Rightarrow>
             (\<lparr>http_status = 500, json = Error_only (lit ''Internal Server Error'')\<rparr>,
              emit (Console Err (lit ''Ingest Error: '' @ message error)) s1)
         | (Inr result, s1) \<Rightarrow>
             (let savedItem = element (rows result) 0;
                  s2 = (if admin_apps_length env w \<noteq> 0
                        then
                          (let s' = emit (Send (lit ''The Capitol Wire'') summary_text tweet_url) s1 in
                           case fcm_send w of
                             Inr _ \<Rightarrow> emit (Console Log (lit ''FCM Notification sent for: '' @ tweet_author)) s'
                           | Inl fcmError \<Rightarrow> emit (Console Err (lit ''FCM Send Error: '' @ message fcmError)) s')
                        else s1)
              in (\<lparr>http_status = 200, json = Item savedItem\<rparr>, s2))))"

definition feed_B :: "world \<Rightarrow> state \<Rightarrow> response \<times> state" where
  "feed_B w s =
     (case pool_query w s Select_feed of
        (Inr result, s1) \<Rightarrow> (\<lparr>http_status = 200, json = Feed (map select_columns (rows result))\<rparr>, s1)
      | (Inl error, s1) \<Rightarrow>
          (\<lparr>http_status = 500, json = Failure (lit ''Internal Server Error'')\<rparr>,
           emit (Console Err (lit ''Feed Error: '' @ message error)) s1))"

section \<open>Predicates of the statements\<close>

text \<open>
  The failures named by the retry policy: the request fails, the status is 503, or the
  status is not a success.
\<close>

definition backend_fails :: "exn + fetch_response \<Rightarrow> bool" where
  "backend_fails r = (case r of Inl e \<Rightarrow> True | Inr res \<Rightarrow> status res = 503 \<or> \<not> ok res)"

fun is_console :: "event \<Rightarrow> bool" where
  "is_console (Console l m) = True"
| "is_console e = False"

text \<open>The events of a summarization attempt: a call of the service, or a pause of the loop.\<close>

fun is_summarization_event :: "event \<Rightarrow> bool" where
  "is_summarization_event (Fetch (Gemini key text author url)) = True"
| "is_summarization_event (Sleep ms) = True"
| "is_summarization_event e = False"

text \<open>Feed items in non-increasing order of \<open>created_at\<close>.\<close>

definition newest_first :: "feed_item list \<Rightarrow> bool" where
  "newest_first items = sorted_wrt (\<lambda>a b. item_created_at b \<le> item_created_at a) items"

text \<open>\<open>s.includes(p)\<close>: \<open>p\<close> occurs in \<open>s\<close>.\<close>

fun contains :: "jsstring \<Rightarrow> jsstring \<Rightarrow> bool" where
  "contains p [] = (p = [])"
| "contains p (c # cs) = (starts_with p (c # cs) \<or> contains p cs)"

text \<open>The five entities that \<open>fetchTweetText\<close> replaces.\<close>

definition entities :: "jsstring list" where
  "entities = [lit ''&amp;'', lit ''&lt;'', lit ''&gt;'', lit ''&quot;'', lit ''&#39;'']"

section \<open>Example inputs\<close>

subsection \<open>Environments\<close>

definition example_env :: environment where
  "example_env =
     \<lparr>GEMINI_API_KEY = Some (lit ''key''), INGEST_SECRET = Some (lit ''s3cret''),
      DATABASE_URL = Some (lit ''postgres://db''),
      FCM_SERVICE_ACCOUNT_B64 = Some (lit ''eyJ0eXBlIjoic2VydmljZV9hY2NvdW50In0=''),
      FIREBASE_SERVICE_ACCOUNT = None\<rparr>"

definition keyless_env :: environment where
  "keyless_env = example_env\<lparr>GEMINI_API_KEY := None\<rparr>"

definition open_env :: environment where
  "open_env = example_env\<lparr>INGEST_SECRET := None\<rparr>"

definition unconfigured_env :: environment where
  "unconfigured_env = example_env\<lparr>FCM_SERVICE_ACCOUNT_B64 := None\<rparr>"

subsection \<open>States\<close>

definition empty_state :: state where
  "empty_state = \<lparr>db = \<lparr>summaries = [], next_id = 1\<rparr>, fetched = 0, trace = []\<rparr>"

definition one_row_state :: state where
  "one_row_state =
     \<lparr>db = \<lparr>summaries = [\<lparr>row_id = 1, created_at = 1000, summary_text = lit ''@a: hi'',
                           tweet_author = Some (lit ''a''),
                           tweet_url = Some (lit ''https://x.com/a/status/1'')\<rparr>],
            next_id = 2\<rparr>,
      fetched = 0, trace = []\<rparr>"

definition two_row_state :: state where
  "two_row_state =
     \<lparr>db = \<lparr>summaries = [\<lparr>row_id = 1, created_at = 1000, summary_text = lit ''@a: hi'',
                           tweet_author = Some (lit ''a''),
                           tweet_url = Some (lit ''https://x.com/a/status/1'')\<rparr>,
                          \<lparr>row_id = 2, created_at = 2000, summary_text = lit ''@b: yo'',
                           tweet_author = None,
                           tweet_url = Some (lit ''https://x.com/b/status/2'')\<rparr>],
            next_id = 3\<rparr>,
      fetched = 0, trace = []\<rparr>"

subsection \<open>Worlds\<close>

text \<open>Every \<open>fetch\<close> is rejected; the database and Firebase work.\<close>

definition quiet_world :: world where
  "quiet_world =
     \<lparr>net = (\<lambda>k. Inl (Exn TypeError (lit ''fetch failed''))), pg_error = None, clock = 1000,
      firebase_init_ok = True, fcm_send = Inr (lit ''projects/p/messages/1'')\<rparr>"

text \<open>The database refuses connections.\<close>

definition db_down_world :: world where
  "db_down_world = quiet_world\<lparr>pg_error := Some (Exn Error (lit ''connect ECONNREFUSED''))\<rparr>"

text \<open>The summarization service answers 503 to every request.\<close>

definition overloaded_world :: world where
  "overloaded_world =
     \<lparr>net = (\<lambda>k. Inr \<lparr>status = 503, text_body = Inr (lit ''busy''),
                      json_body = Inl (Exn SyntaxError (lit ''Unexpected token''))\<rparr>),
      pg_error = None, clock = 1000, firebase_init_ok = True, fcm_send = Inr (lit ''projects/p/messages/1'')\<rparr>"

text \<open>The summarization service answers with one candidate.\<close>

definition answering_world :: world where
  "answering_world =
     \<lparr>net = (\<lambda>k. Inr \<lparr>status = 200, text_body = Inr [],
                      json_body = Inr (Obj [(lit ''candidates'',
                        Arr [Obj [(lit ''content'',
                          Obj [(lit ''parts'', Arr [Obj [(lit ''text'', Str (lit '' @a: says hi  ''))]])])]])])\<rparr>),
      pg_error = None, clock = 1000, firebase_init_ok = True, fcm_send = Inr (lit ''projects/p/messages/1'')\<rparr>"

text \<open>
  The summarization service fails in a different way each time: the request is rejected,
  then a 404 whose body cannot be read, then 503 three times, then a 500 with a body.
\<close>

definition flaky_world :: world where
  "flaky_world =
     \<lparr>net = (\<lambda>k. if k = 0 then Inl (Exn TypeError (lit ''fetch failed''))
                 else if k = 1 then Inr \<lparr>status = 404, text_body = Inl (Exn TypeError (lit ''terminated'')),
                                         json_body = Inl (Exn TypeError (lit ''terminated''))\<rparr>
                 else if k = 5 then Inr \<lparr>status = 500, text_body = Inr (lit ''boom''),
                                         json_body = Inl (Exn SyntaxError (lit ''Unexpected token''))\<rparr>
                 else Inr \<lparr>status = 503, text_body = Inr (lit ''busy''),
                           json_body = Inl (Exn SyntaxError (lit ''Unexpected token''))\<rparr>),
      pg_error = None, clock = 1000, firebase_init_ok = True, fcm_send = Inr (lit ''projects/p/messages/1'')\<rparr>"

text \<open>
  The summarization service answers with two candidates, the first of two parts, whose
  first text has a byte order mark, a no-break space and a space before it and an em
  space, a line feed and a tab after it.
\<close>

definition padded_text :: jsstring where
  "padded_text = [0xFEFF, 0xA0, 0x20] @ lit ''@a: says  hi'' @ [0x2003, 0xA, 0x9]"

definition verbose_world :: world where
  "verbose_world =
     \<lparr>net = (\<lambda>k. Inr \<lparr>status = 200, text_body = Inr [],
                      json_body = Inr (Obj [(lit ''candidates'',
                        Arr [Obj [(lit ''content'',
                               Obj [(lit ''parts'', Arr [Obj [(lit ''text'', Str padded_text)],
                                                         Obj [(lit ''text'', Str (lit ''second part''))]])])],
                             Obj [(lit ''content'',
                               Obj [(lit ''parts'', Arr [Obj [(lit ''text'', Str (lit ''second candidate''))]])])]])])\<rparr>),
      pg_error = None, clock = 1000, firebase_init_ok = True, fcm_send = Inr (lit ''projects/p/messages/1'')\<rparr>"

text \<open>As \<open>answering_world\<close>, but Firebase rejects the message.\<close>

definition fcm_down_world :: world where
  "fcm_down_world = answering_world\<lparr>fcm_send := Inl (Exn Error (lit ''messaging/server-unavailable''))\<rparr>"

text \<open>The primary lookup answers as the oEmbed endpoint does.\<close>

definition oembed_world :: world where
  "oembed_world =
     \<lparr>net = (\<lambda>k. Inr \<lparr>status = 200, text_body = Inr [],
                      json_body = Inr (Obj [(lit ''url'', Str (lit ''https://x.com/a/status/1'')),
                        (lit ''html'',
                         Str (lit ''<blockquote><p>Hello &amp; welcome</p>&mdash; A (@a)</blockquote>''))])\<rparr>),
      pg_error = None, clock = 1000, firebase_init_ok = True, fcm_send = Inr (lit ''projects/p/messages/1'')\<rparr>"

definition linked_world :: world where
  "linked_world =
     \<lparr>net = (\<lambda>k. Inr \<lparr>status = 200, text_body = Inr [],
                      json_body = Inr (Obj [(lit ''html'',
                        Str (lit ''<blockquote><p lang=en>Hi <a href=x>@b</a> &lt;3 &nbsp;</p><p>second</p></blockquote>''))])\<rparr>),
      pg_error = None, clock = 1000, firebase_init_ok = True, fcm_send = Inr (lit ''projects/p/messages/1'')\<rparr>"

subsection \<open>Requests\<close>

definition example_request_A :: request_A where
  "example_request_A =
     \<lparr>x_hillpulse_key = Some (lit ''s3cret''), authorization = None,
      data_text = Some (lit ''hi''), data_author = Some (lit ''a''),
      data_url = Some (lit ''https://x.com/a/status/1'')\<rparr>"

definition wrong_key_request :: request_A where
  "wrong_key_request = example_request_A\<lparr>x_hillpulse_key := Some (lit ''wrong'')\<rparr>"

definition example_request_B :: request_B where
  "example_request_B =
     \<lparr>headers_authorization = Some (lit ''Bearer s3cret''), body_summary_text = Some (lit ''@a: hi''),
      body_tweet_author = Some (lit ''a''), body_tweet_url = Some (lit ''https://x.com/a/status/1'')\<rparr>"

definition wrong_token_request :: request_B where
  "wrong_token_request = example_request_B\<lparr>headers_authorization := Some (lit ''Bearer guess'')\<rparr>"

section \<open>Persistence: idempotent insert\<close>

lemma url_count_stored: "0 < url_count d u \<longleftrightarrow> Some u \<in> tweet_url ` set (summaries d)"
  by (force simp: url_count_def filter_empty_conv image_iff)

lemma map_filter_append: "List.map_filter f (xs @ ys) = List.map_filter f xs @ List.map_filter f ys"
  by (simp add: List.map_filter_def)

lemma set_map_filter: "set (List.map_filter f xs) = {y. Some y \<in> f ` set xs}"
  by (induction xs) (auto simp: List.map_filter_simps split: option.splits)

lemma map_filter_single: "List.map_filter f [x] = (case f x of None \<Rightarrow> [] | Some y \<Rightarrow> [y])"
  by (simp add: List.map_filter_def split: option.splits)

lemma unique_urls_snoc:
  "unique_urls (d\<lparr>summaries := summaries d @ [r], next_id := n\<rparr>) \<longleftrightarrow>
     unique_urls d \<and> (tweet_url r = None \<or> tweet_url r \<notin> tweet_url ` set (summaries d))"
  by (cases "tweet_url r")
     (auto simp: unique_urls_def map_filter_append set_map_filter map_filter_single)

lemma url_count_le_1:
  assumes "unique_urls d"
  shows "url_count d u \<le> 1"
proof -
  have "distinct (List.map_filter f xs) \<Longrightarrow> length (filter (\<lambda>r. f r = Some u) xs) \<le> 1" for f :: "'a \<Rightarrow> 'b option" and xs u
  proof (induction xs)
    case Nil
    then show ?case by simp
  next
    case (Cons x xs)
    show ?case
    proof (cases "f x = Some u")
      case True
      with Cons.prems have "u \<notin> set (List.map_filter f xs)"
        by (simp add: List.map_filter_simps)
      then have "filter (\<lambda>r. f r = Some u) xs = []"
        by (auto simp: set_map_filter filter_empty_conv image_iff) 
      with True show ?thesis by simp
    next
      case False
      with Cons show ?thesis
        by (cases "f x") (simp_all add: List.map_filter_simps)
    qed
  qed
  from this [of tweet_url "summaries d" u] assms show ?thesis
    by (simp add: unique_urls_def url_count_def)
qed

lemma saveSummaryToDB_cases:
  "saveSummaryToDB env w s summary author url = (r, s') \<Longrightarrow>
     (r = Inr False \<and> summaries (db s') = summaries (db s))
     \<or> (r = Inr True \<and> (url = None \<or> url \<notin> tweet_url ` set (summaries (db s)))
         \<and> summaries (db s') = summaries (db s) @ [new_row w (db s) summary author url])"
  by (auto simp: saveSummaryToDB_def query_def pool_query_def emit_def Let_def
           split: if_splits option.splits)

lemma ingest_B_appends:
  assumes "\<not> unauthorized_B env req" "\<not> falsy (body_summary_text req)" "\<not> falsy (body_tweet_author req)"
    "\<not> falsy (body_tweet_url req)" "pg_error w = None"
  shows "http_status (fst (ingest_B env w s req)) = 200
       \<and> url_count (db (snd (ingest_B env w s req))) (or_empty (body_tweet_url req))
           = Suc (url_count (db s) (or_empty (body_tweet_url req)))"
proof -
  let ?q = "Insert_plain (or_empty (body_summary_text req)) (or_empty (body_tweet_author req)) (or_empty (body_tweet_url req))"
  let ?r = "new_row w (db s) (or_empty (body_summary_text req)) (Some (or_empty (body_tweet_author req)))
              (Some (or_empty (body_tweet_url req)))"
  have q: "pool_query w s ?q
      = (Inr \<lparr>rowCount = 1, rows = [?r]\<rparr>,
         (emit (Query ?q) s)\<lparr>db := (db s)\<lparr>summaries := summaries (db s) @ [?r], next_id := Suc (next_id (db s))\<rparr>\<rparr>)"
    using assms(5) by (simp add: pool_query_def emit_def Let_def)
  have "db (snd (ingest_B env w s req)) = (db s)\<lparr>summaries := summaries (db s) @ [?r], next_id := Suc (next_id (db s))\<rparr>"
    "http_status (fst (ingest_B env w s req)) = 200"
    using assms(1-4) by (simp_all add: ingest_B_def q Let_def emit_def split: sum.split)
  then show ?thesis
    by (simp add: url_count_def new_row_def)
qed

text \<open>
  Claim C1, as amended. First variant: \<open>saveSummaryToDB\<close> keeps the invariant that no
  two rows share a non-null \<open>tweet_url\<close>, and when the URL it is given is already
  stored it reports \<open>false\<close>, leaves the table as it was, and the number of rows for
  that URL stays 1. Second variant: an authorized request with its three fields, on a
  database that answers, is answered 200 and adds one row for its URL, stored before or
  not.
\<close>

theorem insert_same_url_again:
  assumes "unique_urls (db s)"
    and "saveSummaryToDB env w s summary author url = (inserted, s')"
  shows "unique_urls (db s')
       \<and> (\<forall>u. url = Some u \<and> 0 < url_count (db s) u \<longrightarrow>
              inserted = Inr False \<and> summaries (db s') = summaries (db s) \<and> url_count (db s') u = 1)
       \<and> (\<not> unauthorized_B env req \<and> \<not> falsy (body_summary_text req) \<and> \<not> falsy (body_tweet_author req)
            \<and> \<not> falsy (body_tweet_url req) \<and> pg_error w = None \<longrightarrow>
              http_status (fst (ingest_B env w s req)) = 200
              \<and> url_count (db (snd (ingest_B env w s req))) (or_empty (body_tweet_url req))
                  = Suc (url_count (db s) (or_empty (body_tweet_url req))))"
proof -
  have uu: "unique_urls d \<longleftrightarrow> distinct (List.map_filter tweet_url (summaries d))" for d
    by (simp add: unique_urls_def)
  from saveSummaryToDB_cases [OF assms(2)]
  have inv: "unique_urls (db s')"
  proof
    assume "inserted = Inr False \<and> summaries (db s') = summaries (db s)"
    with assms(1) show ?thesis by (simp add: uu)
  next
    assume *: "inserted = Inr True \<and> (url = None \<or> url \<notin> tweet_url ` set (summaries (db s)))
         \<and> summaries (db s') = summaries (db s) @ [new_row w (db s) summary author url]"
    have "tweet_url (new_row w (db s) summary author url) = url"
      by (simp add: new_row_def)
    with * assms(1) show ?thesis
      by (cases url) (auto simp: uu map_filter_append set_map_filter map_filter_single)
  qed
  have again: "inserted = Inr False \<and> summaries (db s') = summaries (db s) \<and> url_count (db s') u = 1"
    if "url = Some u \<and> 0 < url_count (db s) u" for u
  proof -
    from that have stored: "url \<in> tweet_url ` set (summaries (db s))"
      by (simp add: url_count_stored)
    with that saveSummaryToDB_cases [OF assms(2)]
    have same: "inserted = Inr False \<and> summaries (db s') = summaries (db s)"
      by auto
    then have "url_count (db s') u = url_count (db s) u"
      by (simp add: url_count_def)
    moreover from assms(1) have "url_count (db s) u \<le> 1"
      by (rule url_count_le_1)
    ultimately show ?thesis
      using same that by simp
  qed
  have plain: "http_status (fst (ingest_B env w s req)) = 200
              \<and> url_count (db (snd (ingest_B env w s req))) (or_empty (body_tweet_url req))
                  = Suc (url_count (db s) (or_empty (body_tweet_url req)))"
    if "\<not> unauthorized_B env req \<and> \<not> falsy (body_summary_text req) \<and> \<not> falsy (body_tweet_author req)
            \<and> \<not> falsy (body_tweet_url req) \<and> pg_error w = None"
    using that by (intro ingest_B_appends) simp_all
  from inv again plain show ?thesis
    by blast
qed

theorem insert_same_url_again_witness:
  "unique_urls (db one_row_state)
   \<and> 0 < url_count (db one_row_state) (lit ''https://x.com/a/status/1'')
   \<and> fst (saveSummaryToDB example_env quiet_world one_row_state (lit ''@a: again'') (Some (lit ''a''))
             (Some (lit ''https://x.com/a/status/1''))) = Inr False
   \<and> url_count (db (snd (saveSummaryToDB example_env quiet_world one_row_state (lit ''@a: again'')
             (Some (lit ''a'')) (Some (lit ''https://x.com/a/status/1''))))) (lit ''https://x.com/a/status/1'') = 1
   \<and> unique_urls (db (snd (saveSummaryToDB example_env quiet_world one_row_state (lit ''@a: again'')
             (Some (lit ''a'')) (Some (lit ''https://x.com/a/status/1'')))))
   \<and> http_status (fst (ingest_B example_env quiet_world one_row_state example_request_B)) = 200
   \<and> url_count (db (snd (ingest_B example_env quiet_world one_row_state example_request_B)))
        (lit ''https://x.com/a/status/1'') = 2"
proof -
  have h1: "unique_urls (db one_row_state)"
    by (simp add: one_row_state_def unique_urls_def map_filter_single)
  have h2: "0 < url_count (db one_row_state) (lit ''https://x.com/a/status/1'')"
    "url_count (db one_row_state) (lit ''https://x.com/a/status/1'') = 1"
    by (simp_all add: one_row_state_def url_count_def)
  have h3: "\<not> unauthorized_B example_env example_request_B" "\<not> falsy (body_summary_text example_request_B)"
    "\<not> falsy (body_tweet_author example_request_B)" "\<not> falsy (body_tweet_url example_request_B)"
    "pg_error quiet_world = None"
    "or_empty (body_tweet_url example_request_B) = lit ''https://x.com/a/status/1''"
    by (simp_all add: unauthorized_B_def example_env_def example_request_B_def quiet_world_def falsy_def
        or_empty_def or_default_def starts_with_def element_def lit_def)
  from insert_same_url_again [OF h1 surjective_pairing,
      of example_env quiet_world "lit ''@a: again''" "Some (lit ''a'')" "Some (lit ''https://x.com/a/status/1'')"
         example_request_B]
    h1 h2 h3
  show ?thesis by simp
qed

text \<open>
  The second variant declares \<open>tweet_url\<close> without \<open>UNIQUE\<close> and inserts without
  \<open>ON CONFLICT\<close>: ingesting the same URL twice answers 200 both times and stores
  two rows for it.
\<close>

theorem variant_B_duplicate_counterexample:
  "http_status (fst (ingest_B example_env quiet_world
       (snd (ingest_B example_env quiet_world empty_state example_request_B)) example_request_B)) = 200
   \<and> url_count (db (snd (ingest_B example_env quiet_world
       (snd (ingest_B example_env quiet_world empty_state example_request_B)) example_request_B)))
       (lit ''https://x.com/a/status/1'') = 2"
  by (simp add: ingest_B_def unauthorized_B_def example_env_def quiet_world_def empty_state_def example_request_B_def
      falsy_def or_empty_def or_default_def pool_query_def emit_def Let_def new_row_def url_count_def
      starts_with_def element_def admin_apps_length_def lit_def)


section \<open>Summarization client: retries\<close>

lemma backend_fails_attempt: "backend_fails r \<Longrightarrow> \<exists>e. attempt_result r = Inl e"
  by (auto simp: backend_fails_def attempt_result_def Let_def split: sum.splits)

lemma digits_6: "digits 6 = ''6''"
  by (simp add: digits.simps)

lemma to_string_convertible: "string_convertible v \<Longrightarrow> to_string v = Inr ()"
  by (simp add: to_string_def)

text \<open>A text that has no string stops the call before the first request.\<close>

lemma callGeminiSummary_unconvertible_text:
  assumes "\<not> falsy (GEMINI_API_KEY env)" "well_formed (or_empty (GEMINI_API_KEY env))"
    and "\<not> string_convertible text"
  shows "callGeminiSummary env w s text author url
           = (Inl (Exn TypeError (lit ''Cannot convert object to primitive value'')), s)"
  using assms by (simp add: callGeminiSummary_def encodeURIComponent_def to_string_def)

text \<open>
  Claim C2. Let the API key be configured and the text of the prompt have a string. A
  backend that fails on each of the next six calls (request failure, 503, or another
  non-success status) makes \<open>callGeminiSummary\<close> call it exactly six times, sleep
  8000 ms between consecutive calls and nowhere else, and then throw an error whose
  message ends with the reason of the sixth failure: the message of the rejection, or
  \<open>Gemini overload 503\<close>, or \<open>Gemini error\<close> with the status and the body.
\<close>

theorem callGeminiSummary_six_attempts:
  assumes key: "\<not> falsy (GEMINI_API_KEY env)" "well_formed (or_empty (GEMINI_API_KEY env))"
    and prompt: "string_convertible text"
    and fails: "\<forall>k<6. backend_fails (net w (fetched s + k))"
  shows "\<exists>e. attempt_result (net w (fetched s + 5)) = Inl e
          \<and> fst (callGeminiSummary env w s text author url)
              = Inl (Exn Error (lit ''Gemini failed after 6 attempts: '' @ message e))
          \<and> fetched (snd (callGeminiSummary env w s text author url)) = fetched s + 6
          \<and> filter (\<lambda>e. \<not> is_console e) (trace (snd (callGeminiSummary env w s text author url)))
              = filter (\<lambda>e. \<not> is_console e) (trace s)
                @ [Fetch (Gemini (or_empty (GEMINI_API_KEY env)) text author url), Sleep 8000,
                   Fetch (Gemini (or_empty (GEMINI_API_KEY env)) text author url), Sleep 8000,
                   Fetch (Gemini (or_empty (GEMINI_API_KEY env)) text author url), Sleep 8000,
                   Fetch (Gemini (or_empty (GEMINI_API_KEY env)) text author url), Sleep 8000,
                   Fetch (Gemini (or_empty (GEMINI_API_KEY env)) text author url), Sleep 8000,
                   Fetch (Gemini (or_empty (GEMINI_API_KEY env)) text author url)]
          \<and> db (snd (callGeminiSummary env w s text author url)) = db s
          \<and> (\<forall>rejection. net w (fetched s + 5) = Inl rejection \<longrightarrow> e = rejection)
          \<and> (\<forall>res. net w (fetched s + 5) = Inr res \<and> status res = 503 \<longrightarrow>
                message e = lit ''Gemini overload 503'')
          \<and> (\<forall>res. net w (fetched s + 5) = Inr res \<and> status res \<noteq> 503 \<longrightarrow>
                message e = lit ''Gemini error '' @ lit (digits (status res)) @ lit '': ''
                              @ (case text_body res of Inl _ \<Rightarrow> [] | Inr t \<Rightarrow> t))"
proof -
  from fails have "backend_fails (net w (fetched s))" "backend_fails (net w (Suc (fetched s)))"
    "backend_fails (net w (Suc (Suc (fetched s))))" "backend_fails (net w (Suc (Suc (Suc (fetched s)))))"
    "backend_fails (net w (Suc (Suc (Suc (Suc (fetched s))))))"
    "backend_fails (net w (Suc (Suc (Suc (Suc (Suc (fetched s)))))))"
    using fails [rule_format, of 0] fails [rule_format, of 1] fails [rule_format, of 2]
      fails [rule_format, of 3] fails [rule_format, of 4] fails [rule_format, of 5]
    by (simp_all add: numeral_eq_Suc)
  then obtain e0 e1 e2 e3 e4 e5 where e:
    "attempt_result (net w (fetched s)) = Inl e0"
    "attempt_result (net w (Suc (fetched s))) = Inl e1"
    "attempt_result (net w (Suc (Suc (fetched s)))) = Inl e2"
    "attempt_result (net w (Suc (Suc (Suc (fetched s))))) = Inl e3"
    "attempt_result (net w (Suc (Suc (Suc (Suc (fetched s)))))) = Inl e4"
    "attempt_result (net w (Suc (Suc (Suc (Suc (Suc (fetched s))))))) = Inl e5"
    by (meson backend_fails_attempt)
  have five: "fetched s + 5 = Suc (Suc (Suc (Suc (Suc (fetched s)))))"
    by simp
  have last: "attempt_result (net w (fetched s + 5)) = Inl e5"
    by (simp only: five e)
  from fails have sixth: "backend_fails (net w (fetched s + 5))"
    by simp
  note unroll = callGeminiSummary_def encodeURIComponent_def to_string_convertible [OF prompt]
    retry_loop.simps gemini_attempt_def fetch_def emit_def MAX_RETRIES_def digits_6 Let_def
  have result: "fst (callGeminiSummary env w s text author url)
      = Inl (Exn Error (lit ''Gemini failed after 6 attempts: '' @ message e5))"
    using key e by (simp add: unroll lit_def)
  have count: "fetched (snd (callGeminiSummary env w s text author url)) = fetched s + 6"
    using key e by (simp add: unroll)
  have schedule: "filter (\<lambda>e. \<not> is_console e) (trace (snd (callGeminiSummary env w s text author url)))
              = filter (\<lambda>e. \<not> is_console e) (trace s)
                @ [Fetch (Gemini (or_empty (GEMINI_API_KEY env)) text author url), Sleep 8000,
                   Fetch (Gemini (or_empty (GEMINI_API_KEY env)) text author url), Sleep 8000,
                   Fetch (Gemini (or_empty (GEMINI_API_KEY env)) text author url), Sleep 8000,
                   Fetch (Gemini (or_empty (GEMINI_API_KEY env)) text author url), Sleep 8000,
                   Fetch (Gemini (or_empty (GEMINI_API_KEY env)) text author url), Sleep 8000,
                   Fetch (Gemini (or_empty (GEMINI_API_KEY env)) text author url)]"
    using key e by (simp add: unroll)
  have table: "db (snd (callGeminiSummary env w s text author url)) = db s"
    using key e by (simp add: unroll)
  have rejected: "\<forall>rejection. net w (fetched s + 5) = Inl rejection \<longrightarrow> e5 = rejection"
    using last by (auto simp: attempt_result_def)
  have overload: "\<forall>res. net w (fetched s + 5) = Inr res \<and> status res = 503 \<longrightarrow>
                message e5 = lit ''Gemini overload 503''"
    using last by (auto simp: attempt_result_def)
  have other: "\<forall>res. net w (fetched s + 5) = Inr res \<and> status res \<noteq> 503 \<longrightarrow>
                message e5 = lit ''Gemini error '' @ lit (digits (status res)) @ lit '': ''
                              @ (case text_body res of Inl _ \<Rightarrow> [] | Inr t \<Rightarrow> t)"
    using last sixth by (auto simp: attempt_result_def backend_fails_def Let_def)
  from last result count schedule table rejected overload other show ?thesis
    by blast
qed

theorem callGeminiSummary_six_attempts_witness:
  "\<not> falsy (GEMINI_API_KEY example_env) \<and> well_formed (or_empty (GEMINI_API_KEY example_env))
   \<and> string_convertible (Str (lit ''hello''))
   \<and> backend_fails (net overloaded_world 0) \<and> backend_fails (net overloaded_world 5)
   \<and> fst (callGeminiSummary example_env overloaded_world empty_state (Str (lit ''hello'')) None [])
       = Inl (Exn Error (lit ''Gemini failed after 6 attempts: Gemini overload 503''))
   \<and> fetched (snd (callGeminiSummary example_env overloaded_world empty_state (Str (lit ''hello'')) None [])) = 6
   \<and> backend_fails (net flaky_world 0) \<and> backend_fails (net flaky_world 1) \<and> backend_fails (net flaky_world 2)
   \<and> backend_fails (net flaky_world 3) \<and> backend_fails (net flaky_world 4) \<and> backend_fails (net flaky_world 5)
   \<and> fst (callGeminiSummary example_env flaky_world empty_state (Arr [Num 1, Null, Obj []]) None [])
       = Inl (Exn Error (lit ''Gemini failed after 6 attempts: Gemini error 500: boom''))
   \<and> fetched (snd (callGeminiSummary example_env flaky_world empty_state (Arr [Num 1, Null, Obj []]) None [])) = 6"
proof -
  have key: "\<not> falsy (GEMINI_API_KEY example_env)" "well_formed (or_empty (GEMINI_API_KEY example_env))"
    by (simp_all add: example_env_def falsy_def or_empty_def or_default_def lit_def
        is_high_surrogate_def is_low_surrogate_def)
  have prompt: "string_convertible (Str (lit ''hello''))" "string_convertible (Arr [Num 1, Null, Obj []])"
    by simp_all
  have fails: "\<forall>k<6. backend_fails (net overloaded_world (fetched empty_state + k))"
    by (simp add: overloaded_world_def backend_fails_def)
  from callGeminiSummary_six_attempts [OF key prompt(1) fails, of None "[]"]
  obtain e where b: "fst (callGeminiSummary example_env overloaded_world empty_state (Str (lit ''hello'')) None [])
              = Inl (Exn Error (lit ''Gemini failed after 6 attempts: '' @ message e))"
    and c: "fetched (snd (callGeminiSummary example_env overloaded_world empty_state (Str (lit ''hello'')) None []))
              = fetched empty_state + 6"
    and m: "\<forall>res. net overloaded_world (fetched empty_state + 5) = Inr res \<and> status res = 503 \<longrightarrow>
                message e = lit ''Gemini overload 503''"
    by blast
  from m have "message e = lit ''Gemini overload 503''"
    by (simp add: overloaded_world_def)
  with b have b': "fst (callGeminiSummary example_env overloaded_world empty_state (Str (lit ''hello'')) None [])
              = Inl (Exn Error (lit ''Gemini failed after 6 attempts: Gemini overload 503''))"
    by (simp add: lit_def)
  from c have c': "fetched (snd (callGeminiSummary example_env overloaded_world empty_state (Str (lit ''hello'')) None [])) = 6"
    by (simp add: empty_state_def)
  have f: "backend_fails (net overloaded_world 0)" "backend_fails (net overloaded_world 5)"
    by (simp_all add: overloaded_world_def backend_fails_def)
  have g: "backend_fails (net flaky_world 0)" "backend_fails (net flaky_world 1)" "backend_fails (net flaky_world 2)"
    "backend_fails (net flaky_world 3)" "backend_fails (net flaky_world 4)" "backend_fails (net flaky_world 5)"
    by (simp_all add: flaky_world_def backend_fails_def ok_def)
  have flaky: "\<forall>k<6. backend_fails (net flaky_world (fetched empty_state + k))"
    by (simp add: flaky_world_def backend_fails_def ok_def)
  from callGeminiSummary_six_attempts [OF key prompt(2) flaky, of None "[]"]
  obtain e' where d: "fst (callGeminiSummary example_env flaky_world empty_state (Arr [Num 1, Null, Obj []]) None [])
              = Inl (Exn Error (lit ''Gemini failed after 6 attempts: '' @ message e'))"
    and h: "fetched (snd (callGeminiSummary example_env flaky_world empty_state (Arr [Num 1, Null, Obj []]) None []))
              = fetched empty_state + 6"
    and n: "\<forall>res. net flaky_world (fetched empty_state + 5) = Inr res \<and> status res \<noteq> 503 \<longrightarrow>
                message e' = lit ''Gemini error '' @ lit (digits (status res)) @ lit '': ''
                              @ (case text_body res of Inl _ \<Rightarrow> [] | Inr t \<Rightarrow> t)"
    by blast
  have "net flaky_world (fetched empty_state + 5)
      = Inr \<lparr>status = 500, text_body = Inr (lit ''boom''), json_body = Inl (Exn SyntaxError (lit ''Unexpected token''))\<rparr>"
    by (simp add: flaky_world_def empty_state_def)
  with n have "message e' = lit ''Gemini error '' @ lit (digits 500) @ lit '': '' @ lit ''boom''"
    by simp
  then have "message e' = lit ''Gemini error 500: boom''"
    by (simp add: digits.simps lit_def)
  with d have d': "fst (callGeminiSummary example_env flaky_world empty_state (Arr [Num 1, Null, Obj []]) None [])
              = Inl (Exn Error (lit ''Gemini failed after 6 attempts: Gemini error 500: boom''))"
    by (simp add: lit_def)
  from h have h': "fetched (snd (callGeminiSummary example_env flaky_world empty_state (Arr [Num 1, Null, Obj []]) None [])) = 6"
    by (simp add: empty_state_def)
  from key prompt(1) f b' c' g d' h' show ?thesis
    by blast
qed

section \<open>Summarization client: success\<close>

lemma first_text_fragment_shape:
  "first_text_fragment
     (Obj [(lit ''candidates'',
        Arr (Obj [(lit ''content'', Obj [(lit ''parts'', Arr (Obj [(lit ''text'', v)] # parts))])] # candidates))])
     = v"
  by (simp add: first_text_fragment_def lit_def)

lemma trim_empty: "trim [] = []"
  by (simp add: trim_def)

text \<open>
  \<open>trim\<close> removes a run of white space from each end and nothing else, and what is
  left neither starts nor ends with white space.
\<close>

lemma trim_surrounding:
  "\<exists>before after. t = before @ trim t @ after
      \<and> list_all is_white_space before \<and> list_all is_white_space after
      \<and> (trim t = [] \<or> (\<not> is_white_space (hd (trim t)) \<and> \<not> is_white_space (last (trim t))))"
proof -
  define rest where "rest = dropWhile is_white_space t"
  define front where "front = takeWhile is_white_space t"
  define rear where "rear = rev (takeWhile is_white_space (rev rest))"
  define core where "core = rev (dropWhile is_white_space (rev rest))"
  have trimmed: "trim t = core"
    by (simp add: trim_def core_def rest_def)
  have rest: "rest = core @ rear"
    unfolding core_def rear_def by (metis rev_append rev_rev_ident takeWhile_dropWhile_id)
  have "t = front @ rest"
    by (simp add: front_def rest_def)
  with rest have split: "t = front @ core @ rear"
    by simp
  have white: "list_all is_white_space front" "list_all is_white_space rear"
    by (auto simp: front_def rear_def list_all_iff dest: set_takeWhileD)
  have ends: "\<not> is_white_space (hd core) \<and> \<not> is_white_space (last core)" if nonempty: "core \<noteq> []"
  proof -
    from nonempty have d: "dropWhile is_white_space (rev rest) \<noteq> []"
      by (simp add: core_def)
    then have "\<not> is_white_space (hd (dropWhile is_white_space (rev rest)))"
      by (rule hd_dropWhile)
    with d have l: "\<not> is_white_space (last core)"
      by (simp add: core_def last_rev)
    from nonempty rest have r: "rest \<noteq> []" and h: "hd rest = hd core"
      by simp_all
    from r have "\<not> is_white_space (hd rest)"
      unfolding rest_def by (rule hd_dropWhile)
    with h l show ?thesis by simp
  qed
  from split white ends show ?thesis
    unfolding trimmed by blast
qed

lemma trim_core:
  assumes "list_all is_white_space before" "list_all is_white_space after"
    and "core = [] \<or> (\<not> is_white_space (hd core) \<and> \<not> is_white_space (last core))"
  shows "trim (before @ core @ after) = core"
proof -
  from assms(1) have front: "dropWhile is_white_space (before @ core @ after) = dropWhile is_white_space (core @ after)"
    by (simp add: list_all_iff)
  from assms(2) have white: "\<forall>c \<in> set after. is_white_space c"
    by (simp add: list_all_iff)
  show ?thesis
  proof (cases "core = []")
    case True
    from white have e: "dropWhile is_white_space after = []"
      by (simp only: dropWhile_eq_Nil_conv)
    from assms(1) have f: "dropWhile is_white_space (before @ after) = dropWhile is_white_space after"
      by (simp add: list_all_iff)
    have "trim (before @ after) = []"
      unfolding trim_def f e by simp
    with True show ?thesis by simp
  next
    case False
    with assms(3) have ends: "\<not> is_white_space (hd core)" "\<not> is_white_space (last core)"
      by simp_all
    from False ends(1) have a: "dropWhile is_white_space (core @ after) = core @ after"
      by (cases core) simp_all
    from white have b: "dropWhile is_white_space (rev after @ rev core) = dropWhile is_white_space (rev core)"
      by (intro dropWhile_append2) simp
    from False ends(2) have c: "dropWhile is_white_space (rev core) = rev core"
      by (cases "rev core") (simp_all add: last_rev [symmetric] hd_rev)
    show ?thesis
      unfolding trim_def front a rev_append b c by simp
  qed
qed
lemma attempt_result_success:
  assumes "ok res" "json_body res = Inr data"
    and "first_text_fragment data = Str t \<or> (\<not> truthy (first_text_fragment data) \<and> t = [])"
  shows "attempt_result (Inr res) = Inr (trim t)"
proof -
  from assms(1) have "status res \<noteq> 503"
    by (simp add: ok_def)
  moreover from assms(3) have "or_else (first_text_fragment data) (Str []) = Str t"
    by (auto simp: or_else_def)
  ultimately show ?thesis
    using assms(1,2) by (simp add: attempt_result_def)
qed

lemma retry_loop_success:
  assumes "attempt \<le> MAX_RETRIES" "attempt_result (net w (fetched s)) = Inr out"
  shows "retry_loop w endpoint attempt lastErr s = (Inr out, (emit (Fetch endpoint) s)\<lparr>fetched := Suc (fetched s)\<rparr>)"
  using assms by (subst retry_loop.simps) (simp add: gemini_attempt_def fetch_def)

text \<open>
  Claim C3. Let the API key be configured and the text of the prompt have a string. When
  the service answers with a success status and a JSON payload, \<open>callGeminiSummary\<close>
  returns the first text fragment of the payload trimmed, after this one call and with
  no pause; so does the loop in any of its six rounds. When the fragment is missing or
  empty the result is the empty string, returned as a success. The first fragment is the
  \<open>text\<close> of the first part of the first candidate, whatever parts and candidates
  follow. Trimming takes a run of white space off each end and nothing else: a text
  made of white space, a core that neither starts nor ends with white space, and white
  space again is returned as its core.
\<close>

theorem callGeminiSummary_returns_trimmed_fragment:
  assumes key: "\<not> falsy (GEMINI_API_KEY env)" "well_formed (or_empty (GEMINI_API_KEY env))"
    and prompt: "string_convertible text"
    and response: "net w (fetched s) = Inr res" "ok res" "json_body res = Inr data"
    and fragment: "first_text_fragment data = Str t \<or> (\<not> truthy (first_text_fragment data) \<and> t = [])"
  shows "callGeminiSummary env w s text author url
           = (Inr (trim t),
              (emit (Fetch (Gemini (or_empty (GEMINI_API_KEY env)) text author url)) s)\<lparr>fetched := Suc (fetched s)\<rparr>)
         \<and> (\<forall>attempt lastErr endpoint. attempt \<le> MAX_RETRIES \<longrightarrow>
               retry_loop w endpoint attempt lastErr s
                 = (Inr (trim t), (emit (Fetch endpoint) s)\<lparr>fetched := Suc (fetched s)\<rparr>))
         \<and> (\<not> truthy (first_text_fragment data) \<longrightarrow>
               fst (callGeminiSummary env w s text author url) = Inr [])
         \<and> (\<forall>v parts candidates.
               data = Obj [(lit ''candidates'',
                        Arr (Obj [(lit ''content'', Obj [(lit ''parts'', Arr (Obj [(lit ''text'', v)] # parts))])]
                             # candidates))]
               \<longrightarrow> first_text_fragment data = v)
         \<and> (\<forall>before core after.
               t = before @ core @ after \<and> list_all is_white_space before \<and> list_all is_white_space after
               \<and> (core = [] \<or> (\<not> is_white_space (hd core) \<and> \<not> is_white_space (last core)))
               \<longrightarrow> fst (callGeminiSummary env w s text author url) = Inr core)
         \<and> (\<exists>before after. t = before @ trim t @ after
               \<and> list_all is_white_space before \<and> list_all is_white_space after
               \<and> (trim t = [] \<or> (\<not> is_white_space (hd (trim t)) \<and> \<not> is_white_space (last (trim t)))))"
proof -
  from response fragment have r: "attempt_result (net w (fetched s)) = Inr (trim t)"
    by (simp add: attempt_result_success)
  have loop: "retry_loop w endpoint attempt lastErr s
                 = (Inr (trim t), (emit (Fetch endpoint) s)\<lparr>fetched := Suc (fetched s)\<rparr>)"
    if "attempt \<le> MAX_RETRIES" for attempt lastErr endpoint
    using that r by (rule retry_loop_success)
  have call: "callGeminiSummary env w s text author url
           = (Inr (trim t),
              (emit (Fetch (Gemini (or_empty (GEMINI_API_KEY env)) text author url)) s)\<lparr>fetched := Suc (fetched s)\<rparr>)"
    using key by (simp add: callGeminiSummary_def encodeURIComponent_def to_string_convertible [OF prompt] Let_def loop)
  have empty: "fst (callGeminiSummary env w s text author url) = Inr []"
    if "\<not> truthy (first_text_fragment data)"
  proof -
    from that fragment have "t = []"
      by (cases "first_text_fragment data") auto
    with call show ?thesis
      by (simp add: trim_empty)
  qed
  have first: "first_text_fragment data = v"
    if "data = Obj [(lit ''candidates'',
                        Arr (Obj [(lit ''content'', Obj [(lit ''parts'', Arr (Obj [(lit ''text'', v)] # parts))])]
                             # candidates))]" for v parts candidates
    unfolding that by (rule first_text_fragment_shape)
  have core: "fst (callGeminiSummary env w s text author url) = Inr core"
    if "t = before @ core @ after \<and> list_all is_white_space before \<and> list_all is_white_space after
               \<and> (core = [] \<or> (\<not> is_white_space (hd core) \<and> \<not> is_white_space (last core)))"
    for before core after
  proof -
    from that have "trim t = core"
      by (simp add: trim_core)
    with call show ?thesis by simp
  qed
  from call loop empty first core trim_surrounding [of t] show ?thesis
    by blast
qed

theorem callGeminiSummary_returns_trimmed_fragment_witness:
  "\<not> falsy (GEMINI_API_KEY example_env) \<and> well_formed (or_empty (GEMINI_API_KEY example_env))
   \<and> string_convertible (Str (lit ''hi''))
   \<and> fst (callGeminiSummary example_env answering_world empty_state (Str (lit ''hi'')) None []) = Inr (lit ''@a: says hi'')
   \<and> fetched (snd (callGeminiSummary example_env answering_world empty_state (Str (lit ''hi'')) None [])) = 1
   \<and> padded_text = [0xFEFF, 0xA0, 0x20] @ lit ''@a: says  hi'' @ [0x2003, 0xA, 0x9]
   \<and> list_all is_white_space [0xFEFF, 0xA0, 0x20] \<and> list_all is_white_space [0x2003, 0xA, 0x9]
   \<and> fst (callGeminiSummary example_env verbose_world empty_state (Str (lit ''hi'')) None []) = Inr (lit ''@a: says  hi'')
   \<and> fetched (snd (callGeminiSummary example_env verbose_world empty_state (Str (lit ''hi'')) None [])) = 1"
proof -
  let ?data = "Obj [(lit ''candidates'',
             Arr [Obj [(lit ''content'',
               Obj [(lit ''parts'', Arr [Obj [(lit ''text'', Str (lit '' @a: says hi  ''))]])])]])]"
  let ?res = "\<lparr>status = 200, text_body = Inr [], json_body = Inr ?data\<rparr>"
  let ?data2 = "Obj [(lit ''candidates'',
                        Arr [Obj [(lit ''content'',
                               Obj [(lit ''parts'', Arr [Obj [(lit ''text'', Str padded_text)],
                                                         Obj [(lit ''text'', Str (lit ''second part''))]])])],
                             Obj [(lit ''content'',
                               Obj [(lit ''parts'', Arr [Obj [(lit ''text'', Str (lit ''second candidate''))]])])]])]"
  let ?res2 = "\<lparr>status = 200, text_body = Inr [], json_body = Inr ?data2\<rparr>"
  have key: "\<not> falsy (GEMINI_API_KEY example_env)" "well_formed (or_empty (GEMINI_API_KEY example_env))"
    by (simp_all add: example_env_def falsy_def or_empty_def or_default_def lit_def
        is_high_surrogate_def is_low_surrogate_def)
  have prompt: "string_convertible (Str (lit ''hi''))"
    by simp
  have response: "net answering_world (fetched empty_state) = Inr ?res" "ok ?res" "json_body ?res = Inr ?data"
    by (simp_all add: answering_world_def ok_def)
  have fragment: "first_text_fragment ?data = Str (lit '' @a: says hi  '')
      \<or> (\<not> truthy (first_text_fragment ?data) \<and> lit '' @a: says hi  '' = [])"
    by (simp add: first_text_fragment_shape)
  have t: "trim (lit '' @a: says hi  '') = lit ''@a: says hi''"
    by (simp add: trim_def lit_def is_white_space_def)
  from callGeminiSummary_returns_trimmed_fragment [OF key prompt response fragment, of None "[]"]
  have "callGeminiSummary example_env answering_world empty_state (Str (lit ''hi'')) None []
      = (Inr (trim (lit '' @a: says hi  '')),
         (emit (Fetch (Gemini (or_empty (GEMINI_API_KEY example_env)) (Str (lit ''hi'')) None [])) empty_state)
           \<lparr>fetched := Suc (fetched empty_state)\<rparr>)"
    by blast
  then have one: "fst (callGeminiSummary example_env answering_world empty_state (Str (lit ''hi'')) None []) = Inr (lit ''@a: says hi'')"
    "fetched (snd (callGeminiSummary example_env answering_world empty_state (Str (lit ''hi'')) None [])) = 1"
    by (simp_all add: t empty_state_def)
  have response2: "net verbose_world (fetched empty_state) = Inr ?res2" "ok ?res2" "json_body ?res2 = Inr ?data2"
    by (simp_all add: verbose_world_def ok_def)
  have fragment2: "first_text_fragment ?data2 = Str padded_text
      \<or> (\<not> truthy (first_text_fragment ?data2) \<and> padded_text = [])"
    by (simp add: first_text_fragment_shape)
  have padded: "padded_text = [0xFEFF, 0xA0, 0x20] @ lit ''@a: says  hi'' @ [0x2003, 0xA, 0x9]"
    by (simp add: padded_text_def)
  have white: "list_all is_white_space [0xFEFF, 0xA0, 0x20]" "list_all is_white_space [0x2003, 0xA, 0x9]"
    by (simp_all add: is_white_space_def)
  have ends: "lit ''@a: says  hi'' = []
      \<or> (\<not> is_white_space (hd (lit ''@a: says  hi'')) \<and> \<not> is_white_space (last (lit ''@a: says  hi'')))"
    by (simp add: lit_def is_white_space_def)
  note thm2 = callGeminiSummary_returns_trimmed_fragment [OF key prompt response2 fragment2, of None "[]"]
  from thm2 padded white ends
  have two: "fst (callGeminiSummary example_env verbose_world empty_state (Str (lit ''hi'')) None []) = Inr (lit ''@a: says  hi'')"
    by blast
  from thm2 have "callGeminiSummary example_env verbose_world empty_state (Str (lit ''hi'')) None []
      = (Inr (trim padded_text),
         (emit (Fetch (Gemini (or_empty (GEMINI_API_KEY example_env)) (Str (lit ''hi'')) None [])) empty_state)
           \<lparr>fetched := Suc (fetched empty_state)\<rparr>)"
    by blast
  then have three: "fetched (snd (callGeminiSummary example_env verbose_world empty_state (Str (lit ''hi'')) None [])) = 1"
    by (simp add: empty_state_def)
  from key prompt one padded white two three show ?thesis
    by blast
qed

section \<open>Content fetcher: no failure reaches the caller\<close>

lemma fetchTweetText_returns: "\<exists>v. fst (fetchTweetText w s url) = Inr v"
  by (simp add: fetchTweetText_def split: prod.splits sum.splits option.splits)

lemma fetchTweetText_swallows:
  "fetchTweetText_try w s url = (Inl e, s1) \<Longrightarrow> fst (fetchTweetText w s url) = Inr (Str [])"
  by (simp add: fetchTweetText_def)

lemma fetchTweetText_try_value:
  assumes "fetchTweetText_try w s url = (Inr (Some v), s1)"
  shows "(\<exists>r1. net w (fetched s) = Inr r1 \<and> primary r1 = Inr (Some v))
       \<or> (\<exists>r2. net w (Suc (fetched s)) = Inr r2 \<and> secondary r2 = Inr (Some v))"
  using assms
  by (auto simp: fetchTweetText_try_def fetch_def emit_def
           split: sum.splits option.splits prod.splits)

text \<open>
  Claim C4. \<open>fetchTweetText\<close> returns a value for every URL and in every world: it
  never throws. For the empty URL it returns the empty string and leaves the state as it
  was, so no call is made. Whatever its \<open>try\<close> block throws (a rejected \<open>fetch\<close>, a
  body that does not parse, a \<open>URIError\<close>) is caught and the empty string returned. When
  neither lookup yields a value the result is the empty string.
\<close>

theorem fetchTweetText_never_throws:
  "(\<exists>v. fst (fetchTweetText w s url) = Inr v)
   \<and> fetchTweetText w s [] = (Inr (Str []), s)
   \<and> (\<forall>e s1. fetchTweetText_try w s url = (Inl e, s1) \<longrightarrow> fst (fetchTweetText w s url) = Inr (Str []))
   \<and> ((\<forall>r1 v. net w (fetched s) = Inr r1 \<longrightarrow> primary r1 \<noteq> Inr (Some v))
        \<and> (\<forall>r2 v. net w (Suc (fetched s)) = Inr r2 \<longrightarrow> secondary r2 \<noteq> Inr (Some v))
      \<longrightarrow> fst (fetchTweetText w s url) = Inr (Str []))"
proof -
  have empty: "fetchTweetText w s [] = (Inr (Str []), s)"
    by (simp add: fetchTweetText_def)
  have no_value: "fst (fetchTweetText w s url) = Inr (Str [])"
    if p: "\<forall>r1 v. net w (fetched s) = Inr r1 \<longrightarrow> primary r1 \<noteq> Inr (Some v)"
      and q: "\<forall>r2 v. net w (Suc (fetched s)) = Inr r2 \<longrightarrow> secondary r2 \<noteq> Inr (Some v)"
  proof (cases "fetchTweetText_try w s url")
    case (Pair r s1)
    show ?thesis
    proof (cases r)
      case (Inl e)
      with Pair show ?thesis by (simp add: fetchTweetText_swallows)
    next
      case (Inr found)
      show ?thesis
      proof (cases found)
        case None
        with Pair Inr show ?thesis by (simp add: fetchTweetText_def)
      next
        case (Some v)
        with Pair Inr have "fetchTweetText_try w s url = (Inr (Some v), s1)" by simp
        from fetchTweetText_try_value [OF this] p q show ?thesis by blast
      qed
    qed
  qed
  have swallowed: "\<forall>e s1. fetchTweetText_try w s url = (Inl e, s1) \<longrightarrow> fst (fetchTweetText w s url) = Inr (Str [])"
    by (simp add: fetchTweetText_swallows)
  from no_value have no_value':
    "(\<forall>r1 v. net w (fetched s) = Inr r1 \<longrightarrow> primary r1 \<noteq> Inr (Some v))
        \<and> (\<forall>r2 v. net w (Suc (fetched s)) = Inr r2 \<longrightarrow> secondary r2 \<noteq> Inr (Some v))
      \<longrightarrow> fst (fetchTweetText w s url) = Inr (Str [])"
    by blast
  show ?thesis
    by (intro conjI fetchTweetText_returns empty swallowed no_value')
qed

theorem fetchTweetText_never_throws_witness:
  "fetchTweetText_try quiet_world empty_state (lit ''https://x.com/a/status/1'')
     = (Inl (Exn TypeError (lit ''fetch failed'')),
        (emit (Fetch (OEmbed (lit ''https://x.com/a/status/1''))) empty_state)\<lparr>fetched := 1\<rparr>)
   \<and> fst (fetchTweetText quiet_world empty_state (lit ''https://x.com/a/status/1'')) = Inr (Str [])
   \<and> fetchTweetText quiet_world empty_state [] = (Inr (Str []), empty_state)"
proof -
  have t: "fetchTweetText_try quiet_world empty_state (lit ''https://x.com/a/status/1'')
     = (Inl (Exn TypeError (lit ''fetch failed'')),
        (emit (Fetch (OEmbed (lit ''https://x.com/a/status/1''))) empty_state)\<lparr>fetched := 1\<rparr>)"
    by (simp add: fetchTweetText_try_def encodeURIComponent_def fetch_def quiet_world_def empty_state_def
        lit_def is_high_surrogate_def is_low_surrogate_def)
  from fetchTweetText_never_throws [of quiet_world empty_state "lit ''https://x.com/a/status/1''"] t
  show ?thesis
    by blast
qed


section \<open>Summarization client: missing API key\<close>

lemma fetchTweetText_frame:
  assumes "fetchTweetText w s url = (r, s1)"
  shows "(\<exists>v. r = Inr v)
       \<and> filter is_summarization_event (trace s1) = filter is_summarization_event (trace s)
       \<and> db s1 = db s"
  using assms
  by (auto simp: fetchTweetText_def fetchTweetText_try_def fetch_def emit_def
           split: if_splits sum.splits option.splits prod.splits)

lemma callGeminiSummary_no_key:
  "falsy (GEMINI_API_KEY env) \<Longrightarrow>
     callGeminiSummary env w s text author url = (Inl (Exn Error (lit ''Missing GEMINI_API_KEY'')), s)"
  by (simp add: callGeminiSummary_def)

lemma ingest_A_no_key:
  assumes key: "falsy (GEMINI_API_KEY env)"
    and pre: "request_text w s req = (Inr t, s1)"
  shows "ingest_A env w s req =
     (if \<not> assertAuthorized env req then (\<lparr>http_status = 401, json = Failure (lit ''Unauthorized'')\<rparr>, s)
      else if \<not> truthy t then (\<lparr>http_status = 400, json = Failure (lit ''Missing tweet text'')\<rparr>, s1)
      else (\<lparr>http_status = 500, json = Failure (lit ''Missing GEMINI_API_KEY'')\<rparr>,
            emit (Console Err (lit ''Missing GEMINI_API_KEY'')) s1))"
  using pre by (simp add: ingest_A_def Let_def callGeminiSummary_no_key [OF key] internal_error_def)

lemma request_text_frame:
  assumes "request_text w s req = (r, s1)"
  shows "(\<exists>v. r = Inr v)
       \<and> filter is_summarization_event (trace s1) = filter is_summarization_event (trace s)
       \<and> db s1 = db s"
proof (cases "or_empty (data_text req) = [] \<and> request_url req \<noteq> []")
  case True
  with assms have "fetchTweetText w s (request_url req) = (r, s1)"
    by (simp add: request_text_def)
  then show ?thesis by (rule fetchTweetText_frame)
next
  case False
  with assms show ?thesis by (auto simp: request_text_def)
qed

text \<open>
  Claim C10. When \<open>GEMINI_API_KEY\<close> is unset or empty, \<open>callGeminiSummary\<close> throws
  \<open>Missing GEMINI_API_KEY\<close> and leaves the state as it was: no call of the service, no
  pause. An authorized ingestion request that carries its text is answered 500 with this
  message, and the only effect is the logged error. In general, a request is answered 401,
  400 or this 500, the trace gains no summarization attempt and no pause, and the table is
  unchanged.
\<close>

theorem callGeminiSummary_missing_key:
  assumes key: "falsy (GEMINI_API_KEY env)"
  shows "callGeminiSummary env w s text author url = (Inl (Exn Error (lit ''Missing GEMINI_API_KEY'')), s)
       \<and> (assertAuthorized env req \<and> \<not> falsy (data_text req) \<longrightarrow>
            ingest_A env w s req
              = (\<lparr>http_status = 500, json = Failure (lit ''Missing GEMINI_API_KEY'')\<rparr>,
                 emit (Console Err (lit ''Missing GEMINI_API_KEY'')) s))
       \<and> (http_status (fst (ingest_A env w s req)) = 401
            \<or> http_status (fst (ingest_A env w s req)) = 400
            \<or> fst (ingest_A env w s req) = \<lparr>http_status = 500, json = Failure (lit ''Missing GEMINI_API_KEY'')\<rparr>)
       \<and> filter is_summarization_event (trace (snd (ingest_A env w s req)))
            = filter is_summarization_event (trace s)
       \<and> db (snd (ingest_A env w s req)) = db s"
proof -
  obtain r s1 where pre: "request_text w s req = (r, s1)"
    by (cases "request_text w s req")
  from pre have frame: "(\<exists>v. r = Inr v)
       \<and> filter is_summarization_event (trace s1) = filter is_summarization_event (trace s)
       \<and> db s1 = db s"
    by (rule request_text_frame)
  then obtain text' where r: "r = Inr text'" by blast
  note run = ingest_A_no_key [OF key pre [unfolded r]]
  have direct: "ingest_A env w s req
              = (\<lparr>http_status = 500, json = Failure (lit ''Missing GEMINI_API_KEY'')\<rparr>,
                 emit (Console Err (lit ''Missing GEMINI_API_KEY'')) s)"
    if "assertAuthorized env req" "\<not> falsy (data_text req)"
  proof -
    from that(2) have "or_empty (data_text req) \<noteq> []"
      by (auto simp: falsy_def or_empty_def or_default_def split: option.splits)
    with pre r have "s1 = s" "truthy text'" by (auto simp: request_text_def)
    with run that(1) show ?thesis by simp
  qed
  have status: "http_status (fst (ingest_A env w s req)) = 401
            \<or> http_status (fst (ingest_A env w s req)) = 400
            \<or> fst (ingest_A env w s req) = \<lparr>http_status = 500, json = Failure (lit ''Missing GEMINI_API_KEY'')\<rparr>"
    by (simp add: run)
  have events: "filter is_summarization_event (trace (snd (ingest_A env w s req)))
            = filter is_summarization_event (trace s)"
    using frame by (simp add: run emit_def)
  have table: "db (snd (ingest_A env w s req)) = db s"
    using frame by (simp add: run emit_def)
  from callGeminiSummary_no_key [OF key] direct status events table show ?thesis
    by blast
qed

theorem callGeminiSummary_missing_key_witness:
  "falsy (GEMINI_API_KEY keyless_env)
   \<and> assertAuthorized keyless_env example_request_A
   \<and> \<not> falsy (data_text example_request_A)
   \<and> callGeminiSummary keyless_env answering_world empty_state (Str (lit ''hi'')) None []
       = (Inl (Exn Error (lit ''Missing GEMINI_API_KEY'')), empty_state)
   \<and> ingest_A keyless_env answering_world empty_state example_request_A
       = (\<lparr>http_status = 500, json = Failure (lit ''Missing GEMINI_API_KEY'')\<rparr>,
          emit (Console Err (lit ''Missing GEMINI_API_KEY'')) empty_state)"
proof -
  have key: "falsy (GEMINI_API_KEY keyless_env)"
    by (simp add: keyless_env_def falsy_def)
  have auth: "assertAuthorized keyless_env example_request_A"
    by (simp add: assertAuthorized_def keyless_env_def example_env_def example_request_A_def
        or_empty_def or_default_def lit_def)
  have has_text: "\<not> falsy (data_text example_request_A)"
    by (simp add: example_request_A_def falsy_def lit_def)
  from callGeminiSummary_missing_key [OF key, of answering_world empty_state "Str (lit ''hi'')" None "[]" example_request_A]
    key auth has_text
  show ?thesis by blast
qed


section \<open>Authorization\<close>

lemma ingest_A_authorized_status:
  assumes "assertAuthorized env req"
  shows "http_status (fst (ingest_A env w s req)) = 200 \<or> http_status (fst (ingest_A env w s req)) = 400
       \<or> http_status (fst (ingest_A env w s req)) = 500"
proof -
  let ?url = "request_url req"
  let ?author = "request_author req"
  obtain r1 s1 where pre: "request_text w s req = (r1, s1)"
    by (cases "request_text w s req")
  show ?thesis
  proof (cases r1)
    case (Inl e)
    with pre assms show ?thesis
      by (simp add: ingest_A_def Let_def internal_error_def)
  next
    case fetched_text: (Inr t)
    show ?thesis
    proof (cases "truthy t")
      case False
      with pre fetched_text assms show ?thesis
        by (simp add: ingest_A_def Let_def)
    next
      case True
      obtain r2 s2 where sum: "callGeminiSummary env w s1 t ?author ?url = (r2, s2)"
        by (cases "callGeminiSummary env w s1 t ?author ?url")
      show ?thesis
      proof (cases r2)
        case (Inl e)
        with pre fetched_text True sum assms show ?thesis
          by (simp add: ingest_A_def Let_def internal_error_def)
      next
        case summary: (Inr summary)
        obtain r3 s3 where save: "saveSummaryToDB env w s2 summary ?author (Some ?url) = (r3, s3)"
          by (cases "saveSummaryToDB env w s2 summary ?author (Some ?url)")
        obtain r4 s4 where push: "sendFCMNotification env w s3 (Some (lit ''The Capitol Wire'')) summary (Some ?url) = (r4, s4)"
          by (cases "sendFCMNotification env w s3 (Some (lit ''The Capitol Wire'')) summary (Some ?url)")
        from pre fetched_text True sum summary save push assms show ?thesis
          by (cases r3; cases r4) (simp_all add: ingest_A_def Let_def internal_error_def)
      qed
    qed
  qed
qed

text \<open>
  Claim C9. In the first variant, when \<open>INGEST_SECRET\<close> is unset or empty,
  \<open>assertAuthorized\<close> is true of every request whatever its headers, and no request to
  \<open>POST /ingest\<close> is answered 401.
\<close>

theorem assertAuthorized_without_secret:
  assumes "falsy (INGEST_SECRET env)"
  shows "assertAuthorized env req \<and> http_status (fst (ingest_A env w s req)) \<noteq> 401"
proof -
  from assms have "or_empty (INGEST_SECRET env) = []"
    by (auto simp: falsy_def or_empty_def or_default_def)
  then have auth: "assertAuthorized env req"
    by (simp add: assertAuthorized_def)
  from ingest_A_authorized_status [OF auth, of w s] have "http_status (fst (ingest_A env w s req)) \<noteq> 401"
    by auto
  with auth show ?thesis ..
qed

theorem assertAuthorized_without_secret_witness:
  "falsy (INGEST_SECRET open_env)
   \<and> x_hillpulse_key wrong_key_request = Some (lit ''wrong'')
   \<and> assertAuthorized open_env wrong_key_request
   \<and> http_status (fst (ingest_A open_env quiet_world empty_state wrong_key_request)) \<noteq> 401"
proof -
  have h: "falsy (INGEST_SECRET open_env)"
    by (simp add: open_env_def falsy_def)
  have k: "x_hillpulse_key wrong_key_request = Some (lit ''wrong'')"
    by (simp add: wrong_key_request_def)
  from assertAuthorized_without_secret [OF h, of wrong_key_request quiet_world empty_state] h k
  show ?thesis by blast
qed

lemma split_not_Nil: "split sep s \<noteq> []"
  by (induction s) (auto split: list.splits)

lemma hd_split: "hd (split sep s) = takeWhile (\<lambda>c. c \<noteq> sep) s"
  by (induction s) (auto split: list.splits simp: split_not_Nil)

lemma starts_with_append: "starts_with p s \<Longrightarrow> s = p @ drop (length p) s"
  by (metis append_take_drop_id starts_with_def)

lemma split_Bearer:
  assumes "starts_with (lit ''Bearer '') h"
  shows "element (split 0x20 h) (Suc 0) = Some (takeWhile (\<lambda>c. c \<noteq> 0x20) (drop 7 h))"
proof -
  define rest where rest: "rest = drop 7 h"
  have "length (lit ''Bearer '') = 7"
    by (simp add: lit_def)
  with starts_with_append [OF assms] have h: "h = lit ''Bearer '' @ rest"
    by (simp only: rest)
  obtain x xs where x: "split 0x20 rest = x # xs"
    by (cases "split 0x20 rest") (simp_all add: split_not_Nil)
  with hd_split [of "0x20" rest] have "x = takeWhile (\<lambda>c. c \<noteq> 0x20) rest"
    by simp
  moreover have "split 0x20 h = lit ''Bearer'' # x # xs"
    by (simp add: h lit_def x)
  ultimately show ?thesis
    by (simp add: element_def rest)
qed

lemma unauthorized_B_iff:
  "unauthorized_B env req \<longleftrightarrow>
     (case headers_authorization req of
        None \<Rightarrow> True
      | Some h \<Rightarrow> \<not> starts_with (lit ''Bearer '') h
                  \<or> Some (takeWhile (\<lambda>c. c \<noteq> 0x20) (drop 7 h)) \<noteq> INGEST_SECRET env)"
proof (cases "headers_authorization req")
  case None
  then show ?thesis by (simp add: unauthorized_B_def)
next
  case (Some h)
  have "\<not> starts_with (lit ''Bearer '') []"
    by (simp add: starts_with_def lit_def)
  with Some show ?thesis
    by (cases "starts_with (lit ''Bearer '') h") (auto simp: unauthorized_B_def split_Bearer)
qed

text \<open>
  Claim C7, as amended. A request is answered 401 with the state unchanged (no call of the
  summarization service, no query, no notification, nothing logged) in these cases. First
  variant: a secret is configured, and the header value read (\<open>X-HillPulse-Key\<close>, or else
  \<open>Authorization\<close>, or else the empty string) is neither the secret nor \<open>Bearer\<close>
  followed by the secret. Second variant: the \<open>Authorization\<close> header is missing, or does
  not start with \<open>Bearer\<close> and a space, or what follows up to the next space is not the
  configured secret (which is always so when no secret is configured).
\<close>

theorem unauthorized_ingest_has_no_effect:
  "(or_empty (INGEST_SECRET env) \<noteq> []
      \<and> or_default (x_hillpulse_key reqA) (or_default (authorization reqA) []) \<noteq> or_empty (INGEST_SECRET env)
      \<and> or_default (x_hillpulse_key reqA) (or_default (authorization reqA) [])
          \<noteq> lit ''Bearer '' @ or_empty (INGEST_SECRET env)
     \<longrightarrow> ingest_A env w s reqA = (\<lparr>http_status = 401, json = Failure (lit ''Unauthorized'')\<rparr>, s))
   \<and> ((case headers_authorization reqB of
          None \<Rightarrow> True
        | Some h \<Rightarrow> \<not> starts_with (lit ''Bearer '') h
                    \<or> Some (takeWhile (\<lambda>c. c \<noteq> 0x20) (drop 7 h)) \<noteq> INGEST_SECRET env)
     \<longrightarrow> ingest_B env w s reqB = (\<lparr>http_status = 401, json = Error_only (lit ''Unauthorized'')\<rparr>, s))"
proof (intro conjI impI)
  assume "or_empty (INGEST_SECRET env) \<noteq> []
      \<and> or_default (x_hillpulse_key reqA) (or_default (authorization reqA) []) \<noteq> or_empty (INGEST_SECRET env)
      \<and> or_default (x_hillpulse_key reqA) (or_default (authorization reqA) [])
          \<noteq> lit ''Bearer '' @ or_empty (INGEST_SECRET env)"
  then have "\<not> assertAuthorized env reqA"
    by (simp add: assertAuthorized_def Let_def)
  then show "ingest_A env w s reqA = (\<lparr>http_status = 401, json = Failure (lit ''Unauthorized'')\<rparr>, s)"
    by (simp add: ingest_A_def)
next
  assume "case headers_authorization reqB of
          None \<Rightarrow> True
        | Some h \<Rightarrow> \<not> starts_with (lit ''Bearer '') h
                    \<or> Some (takeWhile (\<lambda>c. c \<noteq> 0x20) (drop 7 h)) \<noteq> INGEST_SECRET env"
  then have "unauthorized_B env reqB"
    by (simp add: unauthorized_B_iff)
  then show "ingest_B env w s reqB = (\<lparr>http_status = 401, json = Error_only (lit ''Unauthorized'')\<rparr>, s)"
    by (simp add: ingest_B_def)
qed

theorem unauthorized_ingest_has_no_effect_witness:
  "or_empty (INGEST_SECRET example_env) = lit ''s3cret''
   \<and> or_default (x_hillpulse_key wrong_key_request) (or_default (authorization wrong_key_request) []) = lit ''wrong''
   \<and> headers_authorization wrong_token_request = Some (lit ''Bearer guess'')
   \<and> ingest_A example_env answering_world one_row_state wrong_key_request
        = (\<lparr>http_status = 401, json = Failure (lit ''Unauthorized'')\<rparr>, one_row_state)
   \<and> ingest_B example_env answering_world one_row_state wrong_token_request
        = (\<lparr>http_status = 401, json = Error_only (lit ''Unauthorized'')\<rparr>, one_row_state)"
proof -
  have a: "or_empty (INGEST_SECRET example_env) = lit ''s3cret''"
    by (simp add: example_env_def or_empty_def or_default_def lit_def)
  have b: "or_default (x_hillpulse_key wrong_key_request) (or_default (authorization wrong_key_request) []) = lit ''wrong''"
    by (simp add: wrong_key_request_def example_request_A_def or_default_def lit_def)
  have c: "headers_authorization wrong_token_request = Some (lit ''Bearer guess'')"
    by (simp add: wrong_token_request_def)
  have d: "lit ''s3cret'' \<noteq> []" "lit ''wrong'' \<noteq> lit ''s3cret''" "lit ''wrong'' \<noteq> lit ''Bearer '' @ lit ''s3cret''"
    by (simp_all add: lit_def)
  have e: "starts_with (lit ''Bearer '') (lit ''Bearer guess'')"
    "Some (takeWhile (\<lambda>c. c \<noteq> 0x20) (drop 7 (lit ''Bearer guess''))) \<noteq> INGEST_SECRET example_env"
    by (simp_all add: starts_with_def lit_def example_env_def)
  from unauthorized_ingest_has_no_effect [of example_env wrong_key_request answering_world one_row_state wrong_token_request]
    a b c d e
  show ?thesis by simp
qed

text \<open>
  The first variant with no secret configured: a request that presents a key is
  summarized, stored and announced.
\<close>

theorem open_ingest_counterexample:
  "INGEST_SECRET open_env = None
   \<and> x_hillpulse_key wrong_key_request = Some (lit ''wrong'')
   \<and> ingest_A open_env answering_world empty_state wrong_key_request
    = (\<lparr>http_status = 200, json = Summarised (lit ''@a: says hi'') True True\<rparr>,
       \<lparr>db = \<lparr>summaries = [\<lparr>row_id = 1, created_at = 1000, summary_text = lit ''@a: says hi'',
                              tweet_author = Some (lit ''a''), tweet_url = Some (lit ''https://x.com/a/status/1'')\<rparr>],
               next_id = 2\<rparr>,
        fetched = 1,
        trace = [Fetch (Gemini (lit ''key'') (Str (lit ''hi'')) (Some (lit ''a'')) (lit ''https://x.com/a/status/1'')),
                 Query (Insert_on_conflict_do_nothing (lit ''@a: says hi'') (Some (lit ''a'')) (Some (lit ''https://x.com/a/status/1''))),
                 Send (lit ''The Capitol Wire'') (lit ''@a: says hi'') (lit ''https://x.com/a/status/1''),
                 Console Log (lit ''Successfully sent FCM message: projects/p/messages/1'')]\<rparr>)"
proof -
  have run: "ingest_A open_env answering_world empty_state wrong_key_request
    = (\<lparr>http_status = 200, json = Summarised (lit ''@a: says hi'') True True\<rparr>,
       \<lparr>db = \<lparr>summaries = [\<lparr>row_id = 1, created_at = 1000, summary_text = lit ''@a: says hi'',
                              tweet_author = Some (lit ''a''), tweet_url = Some (lit ''https://x.com/a/status/1'')\<rparr>],
               next_id = 2\<rparr>,
        fetched = 1,
        trace = [Fetch (Gemini (lit ''key'') (Str (lit ''hi'')) (Some (lit ''a'')) (lit ''https://x.com/a/status/1'')),
                 Query (Insert_on_conflict_do_nothing (lit ''@a: says hi'') (Some (lit ''a'')) (Some (lit ''https://x.com/a/status/1''))),
                 Send (lit ''The Capitol Wire'') (lit ''@a: says hi'') (lit ''https://x.com/a/status/1''),
                 Console Log (lit ''Successfully sent FCM message: projects/p/messages/1'')]\<rparr>)"
    by (simp add: open_env_def wrong_key_request_def example_env_def example_request_A_def answering_world_def
      empty_state_def ingest_A_def request_url_def request_author_def request_text_def
      assertAuthorized_def or_empty_def or_default_def falsy_def Let_def
      callGeminiSummary_def encodeURIComponent_def to_string_def retry_loop.simps gemini_attempt_def
      fetch_def emit_def
      MAX_RETRIES_def attempt_result_def ok_def first_text_fragment_def or_else_def trim_def is_white_space_def
      saveSummaryToDB_def query_def pool_query_def new_row_def sendFCMNotification_def fcmInitialized_def
      is_high_surrogate_def is_low_surrogate_def lit_def)
  have secret: "INGEST_SECRET open_env = None"
    by (simp add: open_env_def)
  have key: "x_hillpulse_key wrong_key_request = Some (lit ''wrong'')"
    by (simp add: wrong_key_request_def)
  from secret key run show ?thesis
    by (intro conjI)
qed

section \<open>Notification dispatcher: failures stay inside\<close>

lemma sendFCMNotification_returns:
  "\<exists>delivered. fst (sendFCMNotification env w s title msg url) = Inr delivered"
  by (auto simp: sendFCMNotification_def Let_def split: sum.split)

lemma sendFCMNotification_delivered:
  "fst (sendFCMNotification env w s title msg url) = Inr True
     \<longleftrightarrow> fcmInitialized env w \<and> (\<exists>response. fcm_send w = Inr response)"
  by (cases "fcm_send w") (simp_all add: sendFCMNotification_def Let_def)

lemma retry_loop_net:
  "net w' = net w \<Longrightarrow> retry_loop w' endpoint attempt lastErr s = retry_loop w endpoint attempt lastErr s"
proof (induction w endpoint attempt lastErr s rule: retry_loop.induct)
  case (1 w endpoint attempt lastErr s)
  have g: "gemini_attempt w' s endpoint = gemini_attempt w s endpoint"
    using "1.prems" by (simp add: gemini_attempt_def fetch_def)
  show ?case
  proof (cases "attempt \<le> MAX_RETRIES")
    case False
    then show ?thesis
      by (simp add: retry_loop.simps [of w'] retry_loop.simps [of w])
  next
    case True
    obtain r s1 where a: "gemini_attempt w s endpoint = (r, s1)"
      by (cases "gemini_attempt w s endpoint")
    show ?thesis
    proof (cases r)
      case (Inr out)
      with True a g show ?thesis
        by (simp add: retry_loop.simps [of w' endpoint attempt] retry_loop.simps [of w endpoint attempt])
    next
      case (Inl err)
      with True a g "1.IH" [OF True a [symmetric] Inl "1.prems"] show ?thesis
        by (simp add: retry_loop.simps [of w' endpoint attempt] retry_loop.simps [of w endpoint attempt])
    qed
  qed
qed

lemma retry_loop_fcm:
  "retry_loop (w\<lparr>firebase_init_ok := init, fcm_send := outcome\<rparr>) = retry_loop w"
  by (intro ext retry_loop_net) simp

lemma callGeminiSummary_fcm:
  "callGeminiSummary (env\<lparr>FCM_SERVICE_ACCOUNT_B64 := credential\<rparr>) (w\<lparr>firebase_init_ok := init, fcm_send := outcome\<rparr>) s t author url
     = callGeminiSummary env w s t author url"
proof -
  have k: "GEMINI_API_KEY (env\<lparr>FCM_SERVICE_ACCOUNT_B64 := credential\<rparr>) = GEMINI_API_KEY env"
    by simp
  show ?thesis
    unfolding callGeminiSummary_def retry_loop_fcm k ..
qed

lemma fetch_fcm: "fetch (w\<lparr>firebase_init_ok := init, fcm_send := outcome\<rparr>) = fetch w"
  by (simp add: fetch_def fun_eq_iff)

lemma fetchTweetText_fcm:
  "fetchTweetText (w\<lparr>firebase_init_ok := init, fcm_send := outcome\<rparr>) s url = fetchTweetText w s url"
  unfolding fetchTweetText_def fetchTweetText_try_def fetch_fcm ..

lemma pool_query_fcm:
  "pool_query (w\<lparr>firebase_init_ok := init, fcm_send := outcome\<rparr>) = pool_query w"
proof -
  have n: "new_row (w\<lparr>firebase_init_ok := init, fcm_send := outcome\<rparr>) = new_row w"
    by (simp add: new_row_def fun_eq_iff)
  have p: "pg_error (w\<lparr>firebase_init_ok := init, fcm_send := outcome\<rparr>) = pg_error w"
    by simp
  show ?thesis
    unfolding pool_query_def n p ..
qed

lemma saveSummaryToDB_fcm:
  "saveSummaryToDB (env\<lparr>FCM_SERVICE_ACCOUNT_B64 := credential\<rparr>) (w\<lparr>firebase_init_ok := init, fcm_send := outcome\<rparr>) s summary author url
     = saveSummaryToDB env w s summary author url"
proof -
  have d: "DATABASE_URL (env\<lparr>FCM_SERVICE_ACCOUNT_B64 := credential\<rparr>) = DATABASE_URL env"
    by simp
  show ?thesis
    unfolding saveSummaryToDB_def query_def pool_query_fcm d ..
qed

lemma assertAuthorized_fcm:
  "assertAuthorized (env\<lparr>FCM_SERVICE_ACCOUNT_B64 := credential\<rparr>) req = assertAuthorized env req"
  by (simp add: assertAuthorized_def)


lemma ingest_A_fcm:
  "http_status (fst (ingest_A (env\<lparr>FCM_SERVICE_ACCOUNT_B64 := credential\<rparr>) (w\<lparr>firebase_init_ok := init, fcm_send := outcome\<rparr>) s req))
     = http_status (fst (ingest_A env w s req))
   \<and> ok_flag (json (fst (ingest_A (env\<lparr>FCM_SERVICE_ACCOUNT_B64 := credential\<rparr>) (w\<lparr>firebase_init_ok := init, fcm_send := outcome\<rparr>) s req)))
     = ok_flag (json (fst (ingest_A env w s req)))"
proof -
  let ?env = "env\<lparr>FCM_SERVICE_ACCOUNT_B64 := credential\<rparr>"
  let ?w = "w\<lparr>firebase_init_ok := init, fcm_send := outcome\<rparr>"
  let ?url = "request_url req"
  let ?author = "request_author req"
  have request_text_fcm: "request_text ?w s req = request_text w s req"
    by (simp add: request_text_def fetchTweetText_fcm)
  note same = assertAuthorized_fcm request_text_fcm callGeminiSummary_fcm saveSummaryToDB_fcm
  obtain r1 s1 where pre: "request_text w s req = (r1, s1)"
    by (cases "request_text w s req")
  show ?thesis
  proof (cases "assertAuthorized env req")
    case False
    then show ?thesis
      by (simp add: ingest_A_def same)
  next
    case auth: True
    show ?thesis
    proof (cases r1)
      case (Inl e)
      with pre auth show ?thesis
        by (simp add: ingest_A_def Let_def internal_error_def same)
    next
      case fetched_text: (Inr t)
      show ?thesis
      proof (cases "truthy t")
        case False
        with pre fetched_text auth show ?thesis
          by (simp add: ingest_A_def Let_def same)
      next
        case True
        obtain r2 s2 where sum: "callGeminiSummary env w s1 t ?author ?url = (r2, s2)"
          by (cases "callGeminiSummary env w s1 t ?author ?url")
        show ?thesis
        proof (cases r2)
          case (Inl e)
          with pre fetched_text True sum auth show ?thesis
            by (simp add: ingest_A_def Let_def internal_error_def same)
        next
          case summary: (Inr summary)
          obtain r3 s3 where save: "saveSummaryToDB env w s2 summary ?author (Some ?url) = (r3, s3)"
            by (cases "saveSummaryToDB env w s2 summary ?author (Some ?url)")
          obtain r4 s4 where push: "sendFCMNotification env w s3 (Some (lit ''The Capitol Wire'')) summary (Some ?url) = (r4, s4)"
            by (cases "sendFCMNotification env w s3 (Some (lit ''The Capitol Wire'')) summary (Some ?url)")
          obtain r4' s4' where push': "sendFCMNotification ?env ?w s3 (Some (lit ''The Capitol Wire'')) summary (Some ?url) = (r4', s4')"
            by (cases "sendFCMNotification ?env ?w s3 (Some (lit ''The Capitol Wire'')) summary (Some ?url)")
          from sendFCMNotification_returns [of env w s3 "Some (lit ''The Capitol Wire'')" summary "Some ?url"] push
          obtain pushed where r4: "r4 = Inr pushed" by auto
          from sendFCMNotification_returns [of ?env ?w s3 "Some (lit ''The Capitol Wire'')" summary "Some ?url"] push'
          obtain pushed' where r4': "r4' = Inr pushed'" by auto
          from pre fetched_text True sum summary save push push' r4 r4' auth show ?thesis
            by (cases r3) (simp_all add: ingest_A_def Let_def internal_error_def same)
        qed
      qed
    qed
  qed
qed

lemma ingest_B_fcm:
  "http_status (fst (ingest_B (env\<lparr>FIREBASE_SERVICE_ACCOUNT := account\<rparr>) (w\<lparr>firebase_init_ok := init, fcm_send := outcome\<rparr>) s req))
     = http_status (fst (ingest_B env w s req))
   \<and> ok_flag (json (fst (ingest_B (env\<lparr>FIREBASE_SERVICE_ACCOUNT := account\<rparr>) (w\<lparr>firebase_init_ok := init, fcm_send := outcome\<rparr>) s req)))
     = ok_flag (json (fst (ingest_B env w s req)))"
proof -
  let ?q = "pool_query w s (Insert_plain (or_empty (body_summary_text req)) (or_empty (body_tweet_author req)) (or_empty (body_tweet_url req)))"
  have i: "INGEST_SECRET (env\<lparr>FIREBASE_SERVICE_ACCOUNT := account\<rparr>) = INGEST_SECRET env"
    by simp
  have u: "unauthorized_B (env\<lparr>FIREBASE_SERVICE_ACCOUNT := account\<rparr>) req = unauthorized_B env req"
    unfolding unauthorized_B_def i ..
  obtain r s1 where q: "?q = (r, s1)" by (cases ?q)
  then show ?thesis
    by (cases r) (simp_all add: ingest_B_def Let_def u pool_query_fcm)
qed

text \<open>
  Claim C8. \<open>sendFCMNotification\<close> returns a boolean for every input and in every
  world: it never throws. The boolean is \<open>true\<close> exactly when Firebase was initialised
  and the send went through; without a credential it is \<open>false\<close> after a logged
  warning, and on a send error it is \<open>false\<close> after the error is logged. In both
  variants the status and the \<open>ok\<close> member of the ingestion response are the same
  whatever the credential, the initialisation and the outcome of the send.
\<close>

theorem sendFCMNotification_never_fails:
  "(\<exists>delivered. fst (sendFCMNotification env w s title msg url) = Inr delivered)
   \<and> (fst (sendFCMNotification env w s title msg url) = Inr True
        \<longleftrightarrow> fcmInitialized env w \<and> (\<exists>response. fcm_send w = Inr response))
   \<and> (falsy (FCM_SERVICE_ACCOUNT_B64 env) \<longrightarrow>
        sendFCMNotification env w s title msg url
          = (Inr False, emit (Console Warn (lit ''Skipping FCM: Firebase Admin SDK not initialized.'')) s))
   \<and> (\<forall>e. fcmInitialized env w \<and> fcm_send w = Inl e \<longrightarrow>
        sendFCMNotification env w s title msg url
          = (Inr False,
             emit (Console Err (lit ''FCM Send Failed: '' @ message e))
               (emit (Send (or_default title (lit ''The Capitol Wire'')) msg (or_empty url)) s)))
   \<and> http_status (fst (ingest_A (env\<lparr>FCM_SERVICE_ACCOUNT_B64 := credential\<rparr>)
                          (w\<lparr>firebase_init_ok := init, fcm_send := outcome\<rparr>) s reqA))
       = http_status (fst (ingest_A env w s reqA))
   \<and> ok_flag (json (fst (ingest_A (env\<lparr>FCM_SERVICE_ACCOUNT_B64 := credential\<rparr>)
                            (w\<lparr>firebase_init_ok := init, fcm_send := outcome\<rparr>) s reqA)))
       = ok_flag (json (fst (ingest_A env w s reqA)))
   \<and> http_status (fst (ingest_B (env\<lparr>FIREBASE_SERVICE_ACCOUNT := account\<rparr>)
                          (w\<lparr>firebase_init_ok := init, fcm_send := outcome\<rparr>) s reqB))
       = http_status (fst (ingest_B env w s reqB))
   \<and> ok_flag (json (fst (ingest_B (env\<lparr>FIREBASE_SERVICE_ACCOUNT := account\<rparr>)
                            (w\<lparr>firebase_init_ok := init, fcm_send := outcome\<rparr>) s reqB)))
       = ok_flag (json (fst (ingest_B env w s reqB)))"
proof -
  have skipped: "falsy (FCM_SERVICE_ACCOUNT_B64 env) \<longrightarrow>
        sendFCMNotification env w s title msg url
          = (Inr False, emit (Console Warn (lit ''Skipping FCM: Firebase Admin SDK not initialized.'')) s)"
    by (simp add: sendFCMNotification_def fcmInitialized_def)
  have failed: "\<forall>e. fcmInitialized env w \<and> fcm_send w = Inl e \<longrightarrow>
        sendFCMNotification env w s title msg url
          = (Inr False,
             emit (Console Err (lit ''FCM Send Failed: '' @ message e))
               (emit (Send (or_default title (lit ''The Capitol Wire'')) msg (or_empty url)) s))"
    by (simp add: sendFCMNotification_def Let_def)
  show ?thesis
    by (intro conjI sendFCMNotification_returns sendFCMNotification_delivered skipped failed
        ingest_A_fcm [THEN conjunct1] ingest_A_fcm [THEN conjunct2]
        ingest_B_fcm [THEN conjunct1] ingest_B_fcm [THEN conjunct2])
qed

theorem sendFCMNotification_never_fails_witness:
  "falsy (FCM_SERVICE_ACCOUNT_B64 unconfigured_env)
   \<and> fst (sendFCMNotification unconfigured_env answering_world empty_state None (lit ''@a: hi'') None) = Inr False
   \<and> fcmInitialized example_env fcm_down_world
   \<and> fcm_send fcm_down_world = Inl (Exn Error (lit ''messaging/server-unavailable''))
   \<and> fst (sendFCMNotification example_env fcm_down_world empty_state None (lit ''@a: hi'') None) = Inr False
   \<and> http_status (fst (ingest_A example_env fcm_down_world empty_state example_request_A))
       = http_status (fst (ingest_A example_env answering_world empty_state example_request_A))"
proof -
  have a: "falsy (FCM_SERVICE_ACCOUNT_B64 unconfigured_env)"
    by (simp add: unconfigured_env_def falsy_def)
  have b: "fcmInitialized example_env fcm_down_world"
    by (simp add: fcmInitialized_def example_env_def fcm_down_world_def answering_world_def falsy_def lit_def)
  have c: "fcm_send fcm_down_world = Inl (Exn Error (lit ''messaging/server-unavailable''))"
    by (simp add: fcm_down_world_def)
  have d: "example_env\<lparr>FCM_SERVICE_ACCOUNT_B64 := FCM_SERVICE_ACCOUNT_B64 example_env\<rparr> = example_env"
    by simp
  have e: "answering_world\<lparr>firebase_init_ok := firebase_init_ok answering_world,
             fcm_send := Inl (Exn Error (lit ''messaging/server-unavailable''))\<rparr> = fcm_down_world"
    by (simp add: fcm_down_world_def)
  from sendFCMNotification_never_fails [of unconfigured_env answering_world empty_state None "lit ''@a: hi''" None] a
  have first: "fst (sendFCMNotification unconfigured_env answering_world empty_state None (lit ''@a: hi'') None) = Inr False"
    by simp
  from sendFCMNotification_never_fails [of example_env fcm_down_world empty_state None "lit ''@a: hi''" None] b c
  have second: "fst (sendFCMNotification example_env fcm_down_world empty_state None (lit ''@a: hi'') None) = Inr False"
    by simp
  from sendFCMNotification_never_fails [where env = example_env and w = answering_world and s = empty_state
      and credential = "FCM_SERVICE_ACCOUNT_B64 example_env" and init = "firebase_init_ok answering_world"
      and outcome = "Inl (Exn Error (lit ''messaging/server-unavailable''))" and reqA = example_request_A]
  have third: "http_status (fst (ingest_A example_env fcm_down_world empty_state example_request_A))
       = http_status (fst (ingest_A example_env answering_world empty_state example_request_A))"
    by (simp only: d e)
  from a first b c second third show ?thesis
    by blast
qed


section \<open>The feed\<close>

lemma order_by_created_at_desc_sorted:
  "sorted_wrt (\<lambda>a b. created_at b \<le> created_at a) (order_by_created_at_desc rs)"
proof -
  have "sorted (map created_at (sort_key created_at rs))"
    by (rule sorted_sort_key)
  then have "sorted_wrt (\<lambda>a b. created_at a \<le> created_at b) (sort_key created_at rs)"
    by (simp add: sorted_map)
  then show ?thesis
    by (simp add: order_by_created_at_desc_def sorted_wrt_rev)
qed

lemma set_order_by_created_at_desc: "set (order_by_created_at_desc rs) = set rs"
  by (simp add: order_by_created_at_desc_def)

lemma length_order_by_created_at_desc: "length (order_by_created_at_desc rs) = length rs"
  by (simp add: order_by_created_at_desc_def)

lemma select_feed_rows:
  fixes rs :: "summary_row list"
  defines "items \<equiv> map select_columns (take 50 (order_by_created_at_desc rs))"
  shows "length items = min 50 (length rs)"
    and "newest_first items"
    and "set items \<subseteq> select_columns ` set rs"
    and "\<forall>r \<in> set rs. select_columns r \<in> set items \<or> (\<forall>i \<in> set items. created_at r \<le> item_created_at i)"
proof -
  let ?xs = "order_by_created_at_desc rs"
  have sorted: "sorted_wrt (\<lambda>a b. created_at b \<le> created_at a) ?xs"
    by (rule order_by_created_at_desc_sorted)
  show "length items = min 50 (length rs)"
    by (simp add: items_def length_order_by_created_at_desc min.commute)
  from sorted have "sorted_wrt (\<lambda>a b. created_at b \<le> created_at a) (take 50 ?xs)"
    by (rule sorted_wrt_take)
  then show "newest_first items"
    by (simp add: newest_first_def items_def sorted_wrt_map select_columns_def)
  show "set items \<subseteq> select_columns ` set rs"
    using set_take_subset [of 50 ?xs] by (auto simp: items_def set_order_by_created_at_desc)
  from sorted have "sorted_wrt (\<lambda>a b. created_at b \<le> created_at a) (take 50 ?xs @ drop 50 ?xs)"
    by simp
  then have older: "\<forall>x \<in> set (take 50 ?xs). \<forall>y \<in> set (drop 50 ?xs). created_at y \<le> created_at x"
    unfolding sorted_wrt_append by blast
  show "\<forall>r \<in> set rs. select_columns r \<in> set items \<or> (\<forall>i \<in> set items. created_at r \<le> item_created_at i)"
  proof
    fix r assume "r \<in> set rs"
    then have "r \<in> set ?xs"
      by (simp add: set_order_by_created_at_desc)
    moreover have "set ?xs = set (take 50 ?xs) \<union> set (drop 50 ?xs)"
      by (metis append_take_drop_id set_append)
    ultimately consider "r \<in> set (take 50 ?xs)" | "r \<in> set (drop 50 ?xs)"
      by blast
    then show "select_columns r \<in> set items \<or> (\<forall>i \<in> set items. created_at r \<le> item_created_at i)"
    proof cases
      case 1
      then show ?thesis by (simp add: items_def)
    next
      case 2
      with older have "\<forall>i \<in> set items. created_at r \<le> item_created_at i"
        by (auto simp: items_def select_columns_def)
      then show ?thesis ..
    qed
  qed
qed

lemma feed_A_ok:
  assumes "\<not> falsy (DATABASE_URL env)" "pg_error w = None"
  shows "feed_A env w s
     = (\<lparr>http_status = 200, json = Feed (map select_columns (take 50 (order_by_created_at_desc (summaries (db s)))))\<rparr>,
        emit (Query Select_feed) s)"
  using assms by (simp add: feed_A_def query_def pool_query_def emit_def Let_def)

lemma feed_A_failure:
  assumes "falsy (DATABASE_URL env) \<or> pg_error w \<noteq> None"
  shows "\<exists>e. fst (feed_A env w s) = \<lparr>http_status = 500, json = Failure e\<rparr> \<and> db (snd (feed_A env w s)) = db s"
  using assms by (auto simp: feed_A_def query_def pool_query_def emit_def Let_def)

lemma feed_B_ok:
  assumes "pg_error w = None"
  shows "feed_B w s
     = (\<lparr>http_status = 200, json = Feed (map select_columns (take 50 (order_by_created_at_desc (summaries (db s)))))\<rparr>,
        emit (Query Select_feed) s)"
  using assms by (simp add: feed_B_def pool_query_def emit_def Let_def)

lemma feed_B_failure:
  assumes "pg_error w \<noteq> None"
  shows "fst (feed_B w s) = \<lparr>http_status = 500, json = Failure (lit ''Internal Server Error'')\<rparr>
         \<and> db (snd (feed_B w s)) = db s"
  using assms by (auto simp: feed_B_def pool_query_def emit_def Let_def)

text \<open>
  Claim C6. In both variants, when the database answers, \<open>GET /feed\<close> responds 200 with
  \<open>{ ok: true, feed }\<close>, where the feed has at most 50 items (all of them when the
  table has fewer), is sorted by \<open>created_at\<close> newest first, consists of stored rows,
  and every stored row left out is no newer than any item. When the database is not
  configured (first variant) or rejects the query, it responds 500 with
  \<open>{ ok: false, error }\<close>. The table is never changed.
\<close>

theorem feed_newest_first_at_most_50:
  "(\<not> falsy (DATABASE_URL env) \<and> pg_error w = None \<longrightarrow>
      (\<exists>items. fst (feed_A env w s) = \<lparr>http_status = 200, json = Feed items\<rparr>
          \<and> ok_flag (json (fst (feed_A env w s))) = Some True
          \<and> length items = min 50 (length (summaries (db s)))
          \<and> newest_first items
          \<and> set items \<subseteq> select_columns ` set (summaries (db s))
          \<and> (\<forall>r \<in> set (summaries (db s)).
                select_columns r \<in> set items \<or> (\<forall>i \<in> set items. created_at r \<le> item_created_at i))))
   \<and> (falsy (DATABASE_URL env) \<or> pg_error w \<noteq> None \<longrightarrow>
      (\<exists>e. fst (feed_A env w s) = \<lparr>http_status = 500, json = Failure e\<rparr>)
        \<and> ok_flag (json (fst (feed_A env w s))) = Some False)
   \<and> (pg_error w = None \<longrightarrow>
      (\<exists>items. fst (feed_B w s) = \<lparr>http_status = 200, json = Feed items\<rparr>
          \<and> ok_flag (json (fst (feed_B w s))) = Some True
          \<and> length items = min 50 (length (summaries (db s)))
          \<and> newest_first items
          \<and> set items \<subseteq> select_columns ` set (summaries (db s))
          \<and> (\<forall>r \<in> set (summaries (db s)).
                select_columns r \<in> set items \<or> (\<forall>i \<in> set items. created_at r \<le> item_created_at i))))
   \<and> (pg_error w \<noteq> None \<longrightarrow>
      (\<exists>e. fst (feed_B w s) = \<lparr>http_status = 500, json = Failure e\<rparr>)
        \<and> ok_flag (json (fst (feed_B w s))) = Some False)
   \<and> db (snd (feed_A env w s)) = db s
   \<and> db (snd (feed_B w s)) = db s"
proof -
  note rows = select_feed_rows [of "summaries (db s)"]
  have a_ok: "\<exists>items. fst (feed_A env w s) = \<lparr>http_status = 200, json = Feed items\<rparr>
          \<and> ok_flag (json (fst (feed_A env w s))) = Some True
          \<and> length items = min 50 (length (summaries (db s)))
          \<and> newest_first items
          \<and> set items \<subseteq> select_columns ` set (summaries (db s))
          \<and> (\<forall>r \<in> set (summaries (db s)).
                select_columns r \<in> set items \<or> (\<forall>i \<in> set items. created_at r \<le> item_created_at i))"
    if "\<not> falsy (DATABASE_URL env) \<and> pg_error w = None"
    using that rows by (intro exI [of _ "map select_columns (take 50 (order_by_created_at_desc (summaries (db s))))"])
      (simp add: feed_A_ok)
  have b_ok: "\<exists>items. fst (feed_B w s) = \<lparr>http_status = 200, json = Feed items\<rparr>
          \<and> ok_flag (json (fst (feed_B w s))) = Some True
          \<and> length items = min 50 (length (summaries (db s)))
          \<and> newest_first items
          \<and> set items \<subseteq> select_columns ` set (summaries (db s))
          \<and> (\<forall>r \<in> set (summaries (db s)).
                select_columns r \<in> set items \<or> (\<forall>i \<in> set items. created_at r \<le> item_created_at i))"
    if "pg_error w = None"
    using that rows by (intro exI [of _ "map select_columns (take 50 (order_by_created_at_desc (summaries (db s))))"])
      (simp add: feed_B_ok)
  have a_fail: "(\<exists>e. fst (feed_A env w s) = \<lparr>http_status = 500, json = Failure e\<rparr>)
        \<and> ok_flag (json (fst (feed_A env w s))) = Some False"
    if "falsy (DATABASE_URL env) \<or> pg_error w \<noteq> None"
    using feed_A_failure [OF that, of s] by auto
  have b_fail: "(\<exists>e. fst (feed_B w s) = \<lparr>http_status = 500, json = Failure e\<rparr>)
        \<and> ok_flag (json (fst (feed_B w s))) = Some False"
    if "pg_error w \<noteq> None"
    using feed_B_failure [OF that, of s] by auto
  have a_db: "db (snd (feed_A env w s)) = db s"
    by (cases "falsy (DATABASE_URL env) \<or> pg_error w \<noteq> None")
       (use feed_A_failure [of env w s] in blast, simp add: feed_A_ok emit_def)
  have b_db: "db (snd (feed_B w s)) = db s"
    by (cases "pg_error w \<noteq> None")
       (use feed_B_failure [of w s] in blast, simp add: feed_B_ok emit_def)
  from a_ok a_fail b_ok b_fail a_db b_db show ?thesis
    by blast
qed

theorem feed_newest_first_at_most_50_witness:
  "\<not> falsy (DATABASE_URL example_env) \<and> pg_error quiet_world = None
   \<and> (\<exists>items. fst (feed_A example_env quiet_world two_row_state) = \<lparr>http_status = 200, json = Feed items\<rparr>
          \<and> length items = 2 \<and> newest_first items)
   \<and> (\<exists>items. fst (feed_B quiet_world two_row_state) = \<lparr>http_status = 200, json = Feed items\<rparr>
          \<and> length items = 2 \<and> newest_first items)
   \<and> pg_error db_down_world = Some (Exn Error (lit ''connect ECONNREFUSED''))
   \<and> (\<exists>e. fst (feed_A example_env db_down_world two_row_state) = \<lparr>http_status = 500, json = Failure e\<rparr>)
   \<and> (\<exists>e. fst (feed_B db_down_world two_row_state) = \<lparr>http_status = 500, json = Failure e\<rparr>)"
proof -
  have up: "\<not> falsy (DATABASE_URL example_env)" "pg_error quiet_world = None"
    by (simp_all add: example_env_def quiet_world_def falsy_def lit_def)
  have down: "pg_error db_down_world = Some (Exn Error (lit ''connect ECONNREFUSED''))"
    by (simp add: db_down_world_def)
  have n: "min 50 (length (summaries (db two_row_state))) = 2"
    by (simp add: two_row_state_def)
  from feed_newest_first_at_most_50 [of example_env quiet_world two_row_state] up
  have ok_A: "\<exists>items. fst (feed_A example_env quiet_world two_row_state) = \<lparr>http_status = 200, json = Feed items\<rparr>
          \<and> length items = 2 \<and> newest_first items"
    and ok_B: "\<exists>items. fst (feed_B quiet_world two_row_state) = \<lparr>http_status = 200, json = Feed items\<rparr>
          \<and> length items = 2 \<and> newest_first items"
    unfolding n by blast+
  from feed_newest_first_at_most_50 [of example_env db_down_world two_row_state] down
  have fail_A: "\<exists>e. fst (feed_A example_env db_down_world two_row_state) = \<lparr>http_status = 500, json = Failure e\<rparr>"
    and fail_B: "\<exists>e. fst (feed_B db_down_world two_row_state) = \<lparr>http_status = 500, json = Failure e\<rparr>"
    by simp_all
  from up ok_A ok_B down fail_A fail_B show ?thesis
    by blast
qed


section \<open>Content fetcher: extraction\<close>

lemma match_paragraph_skip:
  "\<not> contains (lit ''<p'') pre \<Longrightarrow>
     match_paragraph (pre @ lit ''<p'' @ rest) = match_paragraph (lit ''<p'' @ rest)"
proof (induction pre)
  case Nil
  then show ?case by simp
next
  case (Cons c cs)
  then have no: "\<not> starts_with (lit ''<p'') (c # cs)" and rest: "\<not> contains (lit ''<p'') cs"
    by simp_all
  have "\<not> starts_with (lit ''<p'') (c # cs @ lit ''<p'' @ rest)"
  proof (cases cs)
    case Nil
    then show ?thesis by (simp add: starts_with_def lit_def)
  next
    case (Cons d ds)
    with no show ?thesis by (simp add: starts_with_def lit_def)
  qed
  then have "paragraph_at (c # cs @ lit ''<p'' @ rest) = None"
    by (simp add: paragraph_at_def open_tag_def)
  with Cons.IH [OF rest] show ?case by simp
qed

lemma lazy_group_plain:
  "0x3C \<notin> set body \<Longrightarrow> \<forall>c \<in> set body. \<not> is_line_terminator c \<Longrightarrow>
     lazy_group (body @ lit ''</p>'' @ post) = Some body"
proof (induction body)
  case Nil
  then show ?case by (simp add: lit_def starts_with_def)
next
  case (Cons c cs)
  then have "c \<noteq> 0x3C" by auto
  then have "\<not> starts_with (lit ''</p>'') (c # cs @ lit ''</p>'' @ post)"
    by (auto simp: starts_with_def lit_def)
  with Cons show ?case by simp
qed

lemma paragraph_at_plain:
  assumes "0x3E \<notin> set attrs" "0x3C \<notin> set body" "\<forall>c \<in> set body. \<not> is_line_terminator c"
  shows "paragraph_at (lit ''<p'' @ attrs @ [0x3E] @ body @ lit ''</p>'' @ post) = Some body"
proof -
  from assms(1) have "dropWhile (\<lambda>c. c \<noteq> 0x3E) attrs = []"
    by auto
  then have "open_tag (lit ''<p'' @ attrs @ [0x3E] @ body @ lit ''</p>'' @ post) = Some (body @ lit ''</p>'' @ post)"
    by (simp add: open_tag_def starts_with_def lit_def)
  with lazy_group_plain [OF assms(2,3)] show ?thesis
    by (simp add: paragraph_at_def)
qed

lemma match_paragraph_first:
  assumes "\<not> contains (lit ''<p'') pre" "0x3E \<notin> set attrs" "0x3C \<notin> set body"
    "\<forall>c \<in> set body. \<not> is_line_terminator c"
  shows "match_paragraph (pre @ lit ''<p'' @ attrs @ [0x3E] @ body @ lit ''</p>'' @ post) = Some body"
proof -
  have "match_paragraph (lit ''<p'' @ attrs @ [0x3E] @ body @ lit ''</p>'' @ post) = Some body"
    using paragraph_at_plain [OF assms(2-4), of post] by (simp add: lit_def)
  with match_paragraph_skip [OF assms(1)] show ?thesis by simp
qed

lemma strip_tags_plain: "0x3C \<notin> set t \<Longrightarrow> strip_tags t = t"
  by (induction t) (auto simp: tag_at_def)

lemma replace_all_absent: "\<not> contains p t \<Longrightarrow> replace_all p r t = t"
  by (induction t) auto

lemma decode_entities_absent:
  assumes "\<forall>p \<in> set entities. \<not> contains p t"
  shows "decode_entities t = t"
  using assms by (simp add: decode_entities_def entities_def replace_all_absent)

lemma decode_example: "decode_entities (lit ''Hello &amp; welcome'') = lit ''Hello & welcome''"
  by (simp add: decode_entities_def starts_with_def lit_def)

lemma decode_five:
  "decode_entities (lit ''&amp;'') = lit ''&''"
  "decode_entities (lit ''&lt;'') = lit ''<''"
  "decode_entities (lit ''&gt;'') = lit ''>''"
  "decode_entities (lit ''&quot;'') = lit [CHR 0x22]"
  "decode_entities (lit ''&#39;'') = lit [CHR 0x27]"
  by (simp_all add: decode_entities_def starts_with_def lit_def)

lemma fetchTweetText_primary:
  assumes "url \<noteq> []" "well_formed url" "net w (fetched s) = Inr r1" "ok r1" "json_body r1 = Inr data"
    and "get_property data ''html'' = Inr (Str html)" "match_paragraph html = Some g"
  shows "fetchTweetText w s url
           = (Inr (Str (decode_entities (strip_tags g))), (emit (Fetch (OEmbed url)) s)\<lparr>fetched := Suc (fetched s)\<rparr>)"
proof -
  from assms(7) have "html \<noteq> []" by auto
  with assms(4-7) have "primary r1 = Inr (Some (Str (decode_entities (strip_tags g))))"
    by (simp add: primary_def or_else_def snippet_def)
  with assms(1-3) show ?thesis
    by (simp add: fetchTweetText_def fetchTweetText_try_def encodeURIComponent_def fetch_def)
qed

text \<open>
  Claim C5. Let the primary lookup for a well-formed, non-empty URL answer with a success
  status and a JSON body. When the body's \<open>html\<close> has \<open><p>Hello &amp; welcome</p>\<close>
  as its first paragraph (no \<open><p\<close> before it), \<open>fetchTweetText\<close> returns
  \<open>Hello & welcome\<close>. More generally the result is the group of the first paragraph
  match with its tags stripped and its entities decoded; for a first paragraph that has
  no tag and no line terminator inside, that is the paragraph's text with its entities
  decoded. Each of the five entities is decoded, and a string in which none of the five
  occurs is left as it is.
\<close>

theorem fetchTweetText_extracts_first_paragraph:
  assumes "url \<noteq> []" "well_formed url"
    and "net w (fetched s) = Inr r1" "ok r1" "json_body r1 = Inr data"
  shows "(get_property data ''html'' = Inr (Str (pre @ lit ''<p>Hello &amp; welcome</p>'' @ post))
            \<and> \<not> contains (lit ''<p'') pre
          \<longrightarrow> fst (fetchTweetText w s url) = Inr (Str (lit ''Hello & welcome'')))
       \<and> (get_property data ''html'' = Inr (Str (pre @ lit ''<p'' @ attrs @ [0x3E] @ body @ lit ''</p>'' @ post))
            \<and> \<not> contains (lit ''<p'') pre \<and> 0x3E \<notin> set attrs \<and> 0x3C \<notin> set body
            \<and> (\<forall>c \<in> set body. \<not> is_line_terminator c)
          \<longrightarrow> fst (fetchTweetText w s url) = Inr (Str (decode_entities body)))
       \<and> (\<forall>html g. get_property data ''html'' = Inr (Str html) \<and> match_paragraph html = Some g
          \<longrightarrow> fst (fetchTweetText w s url) = Inr (Str (decode_entities (strip_tags g))))
       \<and> decode_entities (lit ''&amp;'') = lit ''&''
       \<and> decode_entities (lit ''&lt;'') = lit ''<''
       \<and> decode_entities (lit ''&gt;'') = lit ''>''
       \<and> decode_entities (lit ''&quot;'') = lit [CHR 0x22]
       \<and> decode_entities (lit ''&#39;'') = lit [CHR 0x27]
       \<and> (\<forall>t. (\<forall>p \<in> set entities. \<not> contains p t) \<longrightarrow> decode_entities t = t)"
proof -
  have general: "fst (fetchTweetText w s url) = Inr (Str (decode_entities (strip_tags g)))"
    if "get_property data ''html'' = Inr (Str html) \<and> match_paragraph html = Some g" for html g
    using fetchTweetText_primary [OF assms, of html g] that by simp
  have plain: "fst (fetchTweetText w s url) = Inr (Str (decode_entities body))"
    if h: "get_property data ''html'' = Inr (Str (pre @ lit ''<p'' @ attrs @ [0x3E] @ body @ lit ''</p>'' @ post))
            \<and> \<not> contains (lit ''<p'') pre \<and> 0x3E \<notin> set attrs \<and> 0x3C \<notin> set body
            \<and> (\<forall>c \<in> set body. \<not> is_line_terminator c)"
    for pre attrs body post
  proof -
    from h have "match_paragraph (pre @ lit ''<p'' @ attrs @ [0x3E] @ body @ lit ''</p>'' @ post) = Some body"
      by (intro match_paragraph_first) simp_all
    with h general have "fst (fetchTweetText w s url) = Inr (Str (decode_entities (strip_tags body)))"
      by blast
    with h show ?thesis
      by (simp add: strip_tags_plain)
  qed
  have example: "fst (fetchTweetText w s url) = Inr (Str (lit ''Hello & welcome''))"
    if h: "get_property data ''html'' = Inr (Str (pre @ lit ''<p>Hello &amp; welcome</p>'' @ post))
            \<and> \<not> contains (lit ''<p'') pre"
  proof -
    have shape: "pre @ lit ''<p>Hello &amp; welcome</p>'' @ post
        = pre @ lit ''<p'' @ [] @ [0x3E] @ lit ''Hello &amp; welcome'' @ lit ''</p>'' @ post"
      by (simp add: lit_def)
    have body: "0x3C \<notin> set (lit ''Hello &amp; welcome'')"
      "\<forall>c \<in> set (lit ''Hello &amp; welcome''). \<not> is_line_terminator c"
      by (simp_all add: lit_def is_line_terminator_def)
    from h body plain [of pre "[]" "lit ''Hello &amp; welcome''" post]
    have "fst (fetchTweetText w s url) = Inr (Str (decode_entities (lit ''Hello &amp; welcome'')))"
      unfolding shape by simp
    then show ?thesis
      by (simp only: decode_example)
  qed
  from example plain general decode_five decode_entities_absent show ?thesis
    by blast
qed

theorem fetchTweetText_extracts_first_paragraph_witness:
  "fst (fetchTweetText oembed_world empty_state (lit ''https://x.com/a/status/1'')) = Inr (Str (lit ''Hello & welcome''))
   \<and> fst (fetchTweetText linked_world empty_state (lit ''https://x.com/a/status/1'')) = Inr (Str (lit ''Hi @b <3 &nbsp;''))
   \<and> decode_entities (lit ''&nbsp;&copy;'') = lit ''&nbsp;&copy;''"
proof -
  let ?url = "lit ''https://x.com/a/status/1''"
  let ?data1 = "Obj [(lit ''url'', Str (lit ''https://x.com/a/status/1'')),
      (lit ''html'', Str (lit ''<blockquote><p>Hello &amp; welcome</p>&mdash; A (@a)</blockquote>''))]"
  let ?r1 = "\<lparr>status = 200, text_body = Inr [], json_body = Inr ?data1\<rparr>"
  let ?data2 = "Obj [(lit ''html'',
      Str (lit ''<blockquote><p lang=en>Hi <a href=x>@b</a> &lt;3 &nbsp;</p><p>second</p></blockquote>''))]"
  let ?r2 = "\<lparr>status = 200, text_body = Inr [], json_body = Inr ?data2\<rparr>"
  have url: "?url \<noteq> []" "well_formed ?url"
    by (simp_all add: lit_def is_high_surrogate_def is_low_surrogate_def)
  have first: "net oembed_world (fetched empty_state) = Inr ?r1" "ok ?r1" "json_body ?r1 = Inr ?data1"
    by (simp_all add: oembed_world_def ok_def)
  have html1: "get_property ?data1 ''html''
      = Inr (Str (lit ''<blockquote>'' @ lit ''<p>Hello &amp; welcome</p>'' @ lit ''&mdash; A (@a)</blockquote>''))"
    by (simp add: lit_def)
  have pre1: "\<not> contains (lit ''<p'') (lit ''<blockquote>'')"
    by (simp add: lit_def starts_with_def)
  from fetchTweetText_extracts_first_paragraph [OF url first, of "lit ''<blockquote>''" "lit ''&mdash; A (@a)</blockquote>''"]
    html1 pre1
  have one: "fst (fetchTweetText oembed_world empty_state ?url) = Inr (Str (lit ''Hello & welcome''))"
    by blast
  have second: "net linked_world (fetched empty_state) = Inr ?r2" "ok ?r2" "json_body ?r2 = Inr ?data2"
    by (simp_all add: linked_world_def ok_def)
  have html2: "get_property ?data2 ''html''
      = Inr (Str (lit ''<blockquote><p lang=en>Hi <a href=x>@b</a> &lt;3 &nbsp;</p><p>second</p></blockquote>''))"
    by (simp add: lit_def)
  have match2: "match_paragraph (lit ''<blockquote><p lang=en>Hi <a href=x>@b</a> &lt;3 &nbsp;</p><p>second</p></blockquote>'')
      = Some (lit ''Hi <a href=x>@b</a> &lt;3 &nbsp;'')"
    by (simp add: paragraph_at_def open_tag_def starts_with_def is_line_terminator_def lit_def)
  have snippet2: "decode_entities (strip_tags (lit ''Hi <a href=x>@b</a> &lt;3 &nbsp;'')) = lit ''Hi @b <3 &nbsp;''"
    by (simp add: decode_entities_def tag_at_def starts_with_def lit_def)
  from fetchTweetText_extracts_first_paragraph [OF url second] html2 match2
  have "fst (fetchTweetText linked_world empty_state ?url)
      = Inr (Str (decode_entities (strip_tags (lit ''Hi <a href=x>@b</a> &lt;3 &nbsp;''))))"
    by blast
  then have two: "fst (fetchTweetText linked_world empty_state ?url) = Inr (Str (lit ''Hi @b <3 &nbsp;''))"
    by (simp only: snippet2)
  have absent: "\<forall>p \<in> set entities. \<not> contains p (lit ''&nbsp;&copy;'')"
    by (simp add: entities_def starts_with_def lit_def)
  from fetchTweetText_extracts_first_paragraph [OF url first] absent
  have three: "decode_entities (lit ''&nbsp;&copy;'') = lit ''&nbsp;&copy;''"
    by blast
  from one two three show ?thesis
    by blast
qed


end
